theory Spec2Isabelle
  imports Complex_Main
begin

section \<open>Python values\<close>

text \<open>
  The values that cross the boundary of the program are the JSON kinds of Python:
  \<open>None\<close>, booleans, unbounded integers, floats, strings, lists and dictionaries with
  string keys. A float is kept as the exact rational it denotes, or one of the three
  special values.
\<close>

datatype pyfloat = Fin rat | PosInf | NegInf | NaN

datatype pyval = PNone | PBool bool | PInt int | PFloat pyfloat | PStr string
  | PList "pyval list" | PDict "(string \<times> pyval) list"

text \<open>\<open>x if x is not None\<close> on an optional typed value, as a Python value.\<close>

definition opt_val :: "('a \<Rightarrow> pyval) \<Rightarrow> 'a option \<Rightarrow> pyval" where
  "opt_val con x = (case x of None \<Rightarrow> PNone | Some y \<Rightarrow> con y)"

datatype error =
    ValidationError "string list"
  | StorageUnavailable
  | StorageError
  | AttributeError string

section \<open>Record definitions (schemas.py)\<close>

text \<open>
  A pydantic class is a table of field declarations. \<open>Field(...)\<close> is a required
  field, \<open>Field(v)\<close> or \<open>= v\<close> a default (which pydantic does not validate),
  \<open>default_factory=list\<close> a fresh empty list; \<open>ge=b\<close> is the lower bound and
  \<open>description\<close> the text shown by the schema export.
\<close>

datatype default = Required | Default pyval | DefaultFactoryList

datatype ftype = TStr | TInt | TFloat | TBool | TLiteral "string list"
  | TOptional ftype | TList ftype | TModel string "field list"
and field = Field (fname: string) (ftyp: ftype) (fdefault: default)
    (fge: "int option") (fdesc: "string option")

datatype model = Model (mname: string) (mfields: "field list")

definition Bot :: model where
  "Bot = Model ''Bot''
    [Field ''name'' TStr Required None (Some ''Display name for this bot''),
     Field ''username'' (TOptional TStr) (Default PNone) None
       (Some ''Telegram @username of the bot''),
     Field ''token'' (TOptional TStr) (Default PNone) None
       (Some ''Telegram Bot API token (stored encrypted in production)''),
     Field ''team_id'' (TOptional TStr) (Default PNone) None
       (Some ''Team/Workspace this bot belongs to''),
     Field ''welcome_message'' (TOptional TStr) (Default PNone) None
       (Some ''Auto DM for join requests to private groups/channels''),
     Field ''is_active'' TBool (Default (PBool True)) None
       (Some ''Whether bot is currently active'')]"

definition Fan :: model where
  "Fan = Model ''Fan''
    [Field ''bot_id'' TStr Required None (Some ''Bot this fan is associated with''),
     Field ''tg_user_id'' TStr Required None (Some ''Telegram user id''),
     Field ''username'' (TOptional TStr) (Default PNone) None (Some ''Telegram username''),
     Field ''first_name'' (TOptional TStr) (Default PNone) None (Some ''First name''),
     Field ''last_name'' (TOptional TStr) (Default PNone) None (Some ''Last name''),
     Field ''timezone'' (TOptional TStr) (Default PNone) None
       (Some ''IANA timezone string if known''),
     Field ''total_spend'' TFloat (Default (PInt 0)) None
       (Some ''Total Stars revenue associated with this fan'')]"

definition MediaItem :: model where
  "MediaItem = Model ''MediaItem''
    [Field ''bot_id'' TStr Required None (Some ''Bot that owns this media item''),
     Field ''type'' (TLiteral [''photo'', ''video'', ''document'']) Required None
       (Some ''Telegram media type''),
     Field ''caption'' (TOptional TStr) (Default PNone) None
       (Some ''Default caption to send with media''),
     Field ''price'' (TOptional TFloat) (Default PNone) (Some 0)
       (Some ''Price in Stars or currency equivalent''),
     Field ''external_url'' (TOptional TStr) (Default PNone) None
       (Some ''External URL to fetch the file from (for demos)''),
     Field ''telegram_file_id'' (TOptional TStr) (Default PNone) None
       (Some ''Telegram file_id for instant reuse''),
     Field ''tags'' (TList TStr) DefaultFactoryList None (Some ''Tags for quick filtering''),
     Field ''thumbnail_url'' (TOptional TStr) (Default PNone) None
       (Some ''Optional thumbnail url'')]"

definition ScriptStep :: model where
  "ScriptStep = Model ''ScriptStep''
    [Field ''media_item_id'' (TOptional TStr) (Default PNone) None
       (Some ''Reference to a media item''),
     Field ''caption'' (TOptional TStr) (Default PNone) None
       (Some ''Override caption for this step''),
     Field ''price'' (TOptional TFloat) (Default PNone) None
       (Some ''Override price for this step''),
     Field ''delay_minutes'' TInt (Default (PInt 0)) (Some 0)
       (Some ''Delay before sending this step in minutes'')]"

definition Script :: model where
  "Script = Model ''Script''
    [Field ''bot_id'' TStr Required None (Some ''Owning bot''),
     Field ''name'' TStr Required None (Some ''Name of the sales script''),
     Field ''steps'' (TList (TModel (mname ScriptStep) (mfields ScriptStep)))
       DefaultFactoryList None (Some ''Sequence of steps'')]"

definition Conversation :: model where
  "Conversation = Model ''Conversation''
    [Field ''bot_id'' TStr Required None (Some ''Owning bot''),
     Field ''fan_id'' TStr Required None (Some ''Fan in this conversation''),
     Field ''last_message_preview'' (TOptional TStr) (Default PNone) None
       (Some ''Preview text for list view''),
     Field ''last_message_at'' (TOptional TStr) (Default PNone) None
       (Some ''ISO time of last message''),
     Field ''unread'' TInt (Default (PInt 0)) None (Some ''Unread count for agent side'')]"

definition Message :: model where
  "Message = Model ''Message''
    [Field ''conversation_id'' TStr Required None
       (Some ''Conversation this message belongs to''),
     Field ''direction'' (TLiteral [''inbound'', ''outbound'']) Required None
       (Some ''Message direction''),
     Field ''text'' (TOptional TStr) (Default PNone) None (Some ''Text body''),
     Field ''media_item_id'' (TOptional TStr) (Default PNone) None
       (Some ''If message sent a media item''),
     Field ''price'' (TOptional TFloat) (Default PNone) None
       (Some ''Price charged for paid media''),
     Field ''paid'' TBool (Default (PBool False)) None
       (Some ''Whether this was paid content''),
     Field ''telegram_message_id'' (TOptional TInt) (Default PNone) None
       (Some ''Telegram message id if delivered''),
     Field ''telegram_file_id'' (TOptional TStr) (Default PNone) None
       (Some ''file_id used for instant delivery if any'')]"

definition Team :: model where
  "Team = Model ''Team'' [Field ''name'' TStr Required None (Some ''Team name'')]"

definition TeamMember :: model where
  "TeamMember = Model ''TeamMember''
    [Field ''team_id'' TStr Required None None,
     Field ''user_id'' TStr Required None None,
     Field ''role'' (TLiteral [''owner'', ''admin'', ''agent'', ''viewer''])
       (Default (PStr ''agent'')) None None]"

definition AnalyticsDaily :: model where
  "AnalyticsDaily = Model ''AnalyticsDaily''
    [Field ''bot_id'' TStr Required None None,
     Field ''date'' TStr Required None (Some ''YYYY-MM-DD''),
     Field ''revenue'' TFloat (Default (PInt 0)) None None,
     Field ''paid_messages'' TInt (Default (PInt 0)) None None,
     Field ''unique_fans'' TInt (Default (PInt 0)) None None]"

definition ALL_MODELS :: "(string \<times> model) list" where
  "ALL_MODELS =
    [(''Bot'', Bot), (''Fan'', Fan), (''MediaItem'', MediaItem),
     (''ScriptStep'', ScriptStep), (''Script'', Script),
     (''Conversation'', Conversation), (''Message'', Message), (''Team'', Team),
     (''TeamMember'', TeamMember), (''AnalyticsDaily'', AnalyticsDaily)]"

section \<open>Construction of an instance\<close>

text \<open>
  \<open>Cls(**kw)\<close> validates the keyword arguments field by field, in the order of the
  declarations, and keeps every failure: the \<open>ValidationError\<close> carries the names of
  the fields that failed. Keys that name no field are ignored. A value of the field's own
  Python type is taken as it is, an \<open>int\<close> is converted for a \<open>float\<close>, a
  string field takes strings only and a \<open>Literal\<close> one of its strings only. What
  pydantic's lax mode does with a value of another type that it may still convert (numeric
  text or a bool for a number, \<open>0\<close>/\<open>1\<close> or \<open>yes\<close>/\<open>no\<close> for a bool) belongs to
  the library: it is the parameter \<open>lax\<close>, and every result below holds for any
  such conversion.
\<close>

record lax_mode =
  lax_int :: "pyval \<Rightarrow> int option"
  lax_float :: "pyval \<Rightarrow> pyfloat option"
  lax_bool :: "pyval \<Rightarrow> bool option"

text \<open>The lax mode that converts nothing.\<close>

definition strict :: lax_mode where
  "strict = \<lparr>lax_int = (\<lambda>_. None), lax_float = (\<lambda>_. None), lax_bool = (\<lambda>_. None)\<rparr>"

text \<open>
  An \<open>int\<close> given for a \<open>float\<close> is converted as \<open>float(i)\<close> does: to the
  nearest double, ties to the even significand of 53 bits, and not at all when the result
  would reach \<open>2 ^ 1024\<close> (the \<open>OverflowError\<close> that pydantic reports as the
  validation error \<open>float_type\<close>).
\<close>

fun bit_length :: "nat \<Rightarrow> nat" where
  "bit_length n = (if n = 0 then 0 else Suc (bit_length (n div 2)))"

declare bit_length.simps [simp del]

definition round_to_double :: "nat \<Rightarrow> nat" where
  "round_to_double n =
     (if n < 2 ^ 53 then n
      else
        let shift = bit_length n - 53;
            q = n div 2 ^ shift;
            r = n mod 2 ^ shift;
            half = 2 ^ (shift - 1)
        in (if half < r \<or> (r = half \<and> odd q) then q + 1 else q) * 2 ^ shift)"

definition int_to_float :: "int \<Rightarrow> pyfloat option" where
  "int_to_float i =
     (let v = round_to_double (nat \<bar>i\<bar>)
      in if 2 ^ 1024 \<le> v then None
         else Some (Fin (if i < 0 then - of_nat v else of_nat v)))"

fun ge_float :: "int \<Rightarrow> pyfloat \<Rightarrow> bool" where
  "ge_float b (Fin r) = (of_int b \<le> r)"
| "ge_float b PosInf = True"
| "ge_float b NegInf = False"
| "ge_float b NaN = False"

fun those_vals :: "pyval option list \<Rightarrow> pyval list option" where
  "those_vals [] = Some []"
| "those_vals (None # _) = None"
| "those_vals (Some v # rest) = map_option ((#) v) (those_vals rest)"

type_synonym kwargs = "string \<rightharpoonup> pyval"

type_synonym model_instance = "(string \<times> pyval) list"

fun validate :: "lax_mode \<Rightarrow> int option \<Rightarrow> ftype \<Rightarrow> pyval \<Rightarrow> pyval option"
and validate_field :: "lax_mode \<Rightarrow> field \<Rightarrow> kwargs \<Rightarrow> pyval option"
and validate_fields :: "lax_mode \<Rightarrow> field list \<Rightarrow> kwargs \<Rightarrow> string list \<times> model_instance"
where
  "validate lax g TStr v = (case v of PStr s \<Rightarrow> Some (PStr s) | _ \<Rightarrow> None)"
| "validate lax g TInt v =
     (case (case v of PInt i \<Rightarrow> Some i | _ \<Rightarrow> lax_int lax v) of
        None \<Rightarrow> None
      | Some i \<Rightarrow> (case g of None \<Rightarrow> Some (PInt i)
                   | Some b \<Rightarrow> if b \<le> i then Some (PInt i) else None))"
| "validate lax g TFloat v =
     (case (case v of PFloat f \<Rightarrow> Some f | PInt i \<Rightarrow> int_to_float i
                    | _ \<Rightarrow> lax_float lax v) of
        None \<Rightarrow> None
      | Some f \<Rightarrow> (case g of None \<Rightarrow> Some (PFloat f)
                   | Some b \<Rightarrow> if ge_float b f then Some (PFloat f) else None))"
| "validate lax g TBool v =
     (case v of PBool b \<Rightarrow> Some (PBool b) | _ \<Rightarrow> map_option PBool (lax_bool lax v))"
| "validate lax g (TLiteral allowed) v =
     (case v of PStr s \<Rightarrow> if s \<in> set allowed then Some (PStr s) else None | _ \<Rightarrow> None)"
| "validate lax g (TOptional t) v =
     (case v of PNone \<Rightarrow> Some PNone | _ \<Rightarrow> validate lax g t v)"
| "validate lax g (TList t) v =
     (case v of PList vs \<Rightarrow> map_option PList (those_vals (map (validate lax None t) vs))
              | _ \<Rightarrow> None)"
| "validate lax g (TModel n fs) v =
     (case v of
        PDict kw \<Rightarrow>
          (case validate_fields lax fs (map_of kw) of
             ([], vals) \<Rightarrow> Some (PDict vals)
           | _ \<Rightarrow> None)
      | _ \<Rightarrow> None)"
| "validate_field lax (Field n t d g ds) kw =
     (case kw n of
        None \<Rightarrow> (case d of Required \<Rightarrow> None | Default v \<Rightarrow> Some v
                         | DefaultFactoryList \<Rightarrow> Some (PList []))
      | Some v \<Rightarrow> validate lax g t v)"
| "validate_fields lax [] kw = ([], [])"
| "validate_fields lax (f # fs) kw =
     (case validate_fields lax fs kw of
        (errs, vals) \<Rightarrow>
          (case validate_field lax f kw of
             None \<Rightarrow> (fname f # errs, vals)
           | Some v \<Rightarrow> (errs, (fname f, v) # vals)))"

text \<open>
  The instance is kept as \<open>model_dump()\<close> shows it: the validated fields in the order
  of their declaration.
\<close>

definition construct :: "lax_mode \<Rightarrow> model \<Rightarrow> kwargs \<Rightarrow> error + model_instance" where
  "construct lax m kw =
     (case validate_fields lax (mfields m) kw of
        ([], vals) \<Rightarrow> Inr vals
      | (e # es, vals) \<Rightarrow> Inl (ValidationError (e # es)))"

text \<open>Reading an attribute of an instance.\<close>

definition getattr :: "model_instance \<Rightarrow> string \<Rightarrow> error + pyval" where
  "getattr inst n = (case map_of inst n of None \<Rightarrow> Inl (AttributeError n) | Some v \<Rightarrow> Inr v)"

section \<open>The document store (database.py)\<close>

text \<open>
  The store gives every inserted document an \<open>ObjectId\<close>, twelve bytes that
  \<open>str\<close> shows as twenty-four hexadecimal digits. A document is a dictionary that
  always has the key \<open>_id\<close>; it is kept as a record with that key apart (\<open>doc_id\<close>),
  holding either the native identifier or, once a handler has converted it, a string.
\<close>

datatype ident = ObjectId nat | IdStr string

definition hex_digit :: "nat \<Rightarrow> char" where
  "hex_digit d = ''0123456789abcdef'' ! (d mod 16)"

fun hex_digits :: "nat \<Rightarrow> nat \<Rightarrow> string" where
  "hex_digits 0 n = []"
| "hex_digits (Suc k) n = hex_digits k (n div 16) @ [hex_digit n]"

text \<open>\<open>str(x)\<close> on an identifier.\<close>

fun str_ident :: "ident \<Rightarrow> string" where
  "str_ident (ObjectId n) = hex_digits 24 n"
| "str_ident (IdStr s) = s"

record document =
  doc_id :: ident
  body :: "(string \<times> pyval) list"

text \<open>
  The connection \<open>db\<close> is \<open>None\<close> when it was never established. A store holds its
  collections by name, the next identifier it will assign, and whether it can be reached.
\<close>

record store =
  collections :: "string \<Rightarrow> document list"
  next_oid :: nat
  online :: bool

type_synonym db = "store option"

definition lower_char :: "char \<Rightarrow> char" where
  "lower_char c =
     (case map_of (zip ''ABCDEFGHIJKLMNOPQRSTUVWXYZ'' ''abcdefghijklmnopqrstuvwxyz'') c of
        None \<Rightarrow> c
      | Some d \<Rightarrow> d)"

definition lower :: "string \<Rightarrow> string" where
  "lower s = map lower_char s"

text \<open>An exact-match filter: every key of the filter has that value in the document.\<close>

definition matches :: "(string \<times> pyval) list \<Rightarrow> document \<Rightarrow> bool" where
  "matches flt d = list_all (\<lambda>(k, v). map_of (body d) k = Some v) flt"

text \<open>
  Modelled from the spec: \<open>create_document\<close> of database.py, which is not among the
  sources. It serializes the record to a plain mapping, inserts it into the collection
  named by the lower-cased kind and returns the store-assigned identifier as a string; it
  fails with \<open>StorageUnavailable\<close> if no store connection exists and with
  \<open>StorageError\<close> if the underlying insert fails.
\<close>

definition create_document :: "db \<Rightarrow> string \<Rightarrow> model_instance \<Rightarrow> (error + string) \<times> db" where
  "create_document d kind data =
     (case d of
        None \<Rightarrow> (Inl StorageUnavailable, d)
      | Some st \<Rightarrow>
          if \<not> online st then (Inl StorageError, d)
          else
            let oid = ObjectId (next_oid st);
                c = lower kind
            in (Inr (str_ident oid),
                Some (st\<lparr>collections := (collections st)
                            (c := collections st c @ [\<lparr>doc_id = oid, body = data\<rparr>]),
                         next_oid := next_oid st + 1\<rparr>)))"

text \<open>
  Modelled from the spec: \<open>get_documents\<close> of database.py, which is not among the
  sources. It returns up to \<open>limit\<close> documents of the collection that match the filter,
  in insertion order, and the empty sequence if the store is unavailable or the read
  fails. The identifiers come back native; the handlers convert them.
\<close>

definition get_documents :: "db \<Rightarrow> string \<Rightarrow> (string \<times> pyval) list \<Rightarrow> int \<Rightarrow> document list" where
  "get_documents d kind flt limit =
     (case d of
        None \<Rightarrow> []
      | Some st \<Rightarrow>
          if \<not> online st then []
          else take (nat limit) (filter (matches flt) (collections st (lower kind))))"

section \<open>The handlers (main.py)\<close>

text \<open>The loop \<open>for it in items: it["_id"] = str(it["_id"])\<close>.\<close>

definition stringify_ids :: "document list \<Rightarrow> document list" where
  "stringify_ids items = map (\<lambda>it. it\<lparr>doc_id := IdStr (str_ident (doc_id it))\<rparr>) items"

record CreateMediaRequest =
  bot_id :: string
  type :: string
  caption :: "string option"
  price :: "pyfloat option"
  external_url :: "string option"

text \<open>\<open>payload.model_dump()\<close>.\<close>

definition model_dump_media :: "CreateMediaRequest \<Rightarrow> (string \<times> pyval) list" where
  "model_dump_media payload =
     [(''bot_id'', PStr (CreateMediaRequest.bot_id payload)),
      (''type'', PStr (type payload)),
      (''caption'', opt_val PStr (caption payload)),
      (''price'', opt_val PFloat (CreateMediaRequest.price payload)),
      (''external_url'', opt_val PStr (external_url payload))]"

text \<open>
  The parameters \<open>bot_id\<close> and \<open>conversation_id\<close> of the listing handlers are
  primed, the plain names being the fields of the requests. The handlers take the
  \<open>limit\<close> they are called with; the defaults of the signatures (50, 100 and 20) are
  filled in by the caller. An empty \<open>bot_id\<close> is falsy, like \<open>None\<close>.
\<close>

definition list_media :: "db \<Rightarrow> string option \<Rightarrow> int \<Rightarrow> document list" where
  "list_media d bot_id' limit =
     (let filter_q = (case bot_id' of
                        None \<Rightarrow> []
                      | Some b \<Rightarrow> if b \<noteq> [] then [(''bot_id'', PStr b)] else []);
          items = get_documents d ''mediaitem'' filter_q limit
      in stringify_ids items)"

definition create_media ::
  "lax_mode \<Rightarrow> db \<Rightarrow> CreateMediaRequest \<Rightarrow> (error + (string \<times> pyval) list) \<times> db" where
  "create_media lax d payload =
     (case construct lax MediaItem (map_of (model_dump_media payload)) of
        Inl e \<Rightarrow> (Inl e, d)
      | Inr doc \<Rightarrow>
          (case create_document d ''mediaitem'' doc of
             (Inl e, d') \<Rightarrow> (Inl e, d')
           | (Inr inserted_id, d') \<Rightarrow> (Inr [(''id'', PStr inserted_id)], d')))"

record CreateConversationRequest =
  bot_id :: string
  fan_id :: string
  last_message_preview :: "string option"

definition model_dump_conversation :: "CreateConversationRequest \<Rightarrow> (string \<times> pyval) list" where
  "model_dump_conversation payload =
     [(''bot_id'', PStr (CreateConversationRequest.bot_id payload)),
      (''fan_id'', PStr (fan_id payload)),
      (''last_message_preview'', opt_val PStr (last_message_preview payload))]"

definition list_conversations :: "db \<Rightarrow> string \<Rightarrow> int \<Rightarrow> document list" where
  "list_conversations d bot_id' limit =
     (let items = get_documents d ''conversation'' [(''bot_id'', PStr bot_id')] limit
      in stringify_ids items)"

definition create_conversation ::
  "lax_mode \<Rightarrow> db \<Rightarrow> CreateConversationRequest \<Rightarrow> (error + (string \<times> pyval) list) \<times> db" where
  "create_conversation lax d payload =
     (case construct lax Conversation (map_of (model_dump_conversation payload)) of
        Inl e \<Rightarrow> (Inl e, d)
      | Inr doc \<Rightarrow>
          (case create_document d ''conversation'' doc of
             (Inl e, d') \<Rightarrow> (Inl e, d')
           | (Inr inserted_id, d') \<Rightarrow> (Inr [(''id'', PStr inserted_id)], d')))"

text \<open>The field \<open>text\<close> of the request is \<open>text_body\<close> here.\<close>

record SendMessageRequest =
  conversation_id :: string
  text_body :: "string option"
  media_item_id :: "string option"
  paid :: bool
  price :: "pyfloat option"

definition list_messages :: "db \<Rightarrow> string \<Rightarrow> int \<Rightarrow> document list" where
  "list_messages d conversation_id' limit =
     (let items =
        get_documents d ''message'' [(''conversation_id'', PStr conversation_id')] limit
      in stringify_ids items)"

text \<open>The keyword arguments that \<open>send_message\<close> gives to \<open>Message\<close>.\<close>

definition message_kwargs :: "SendMessageRequest \<Rightarrow> (string \<times> pyval) list" where
  "message_kwargs payload =
     [(''conversation_id'', PStr (conversation_id payload)),
      (''direction'', PStr ''outbound''),
      (''text'', opt_val PStr (text_body payload)),
      (''media_item_id'', opt_val PStr (media_item_id payload)),
      (''paid'', PBool (paid payload)),
      (''price'', opt_val PFloat (SendMessageRequest.price payload)),
      (''telegram_message_id'', PInt 123456)]"

definition send_message ::
  "lax_mode \<Rightarrow> db \<Rightarrow> SendMessageRequest \<Rightarrow> (error + (string \<times> pyval) list) \<times> db" where
  "send_message lax d payload =
     (case construct lax Message (map_of (message_kwargs payload)) of
        Inl e \<Rightarrow> (Inl e, d)
      | Inr msg \<Rightarrow>
          (case create_document d ''message'' msg of
             (Inl e, d') \<Rightarrow> (Inl e, d')
           | (Inr inserted_id, d') \<Rightarrow>
               (case getattr msg ''telegram_message_id'' of
                  Inl e \<Rightarrow> (Inl e, d')
                | Inr tg \<Rightarrow>
                    (Inr [(''id'', PStr inserted_id), (''telegram_message_id'', tg)], d'))))"

record CreateBotRequest =
  name :: string
  username :: "string option"

definition list_bots :: "db \<Rightarrow> int \<Rightarrow> document list" where
  "list_bots d limit =
     (let items = get_documents d ''bot'' [] limit
      in stringify_ids items)"

definition bot_kwargs :: "CreateBotRequest \<Rightarrow> (string \<times> pyval) list" where
  "bot_kwargs payload =
     [(''name'', PStr (name payload)), (''username'', opt_val PStr (username payload))]"

definition create_bot ::
  "lax_mode \<Rightarrow> db \<Rightarrow> CreateBotRequest \<Rightarrow> (error + (string \<times> pyval) list) \<times> db" where
  "create_bot lax d payload =
     (case construct lax Bot (map_of (bot_kwargs payload)) of
        Inl e \<Rightarrow> (Inl e, d)
      | Inr bot' \<Rightarrow>
          (case create_document d ''bot'' bot' of
             (Inl e, d') \<Rightarrow> (Inl e, d')
           | (Inr inserted_id, d') \<Rightarrow> (Inr [(''id'', PStr inserted_id)], d')))"

section \<open>The schema export\<close>

text \<open>
  \<open>model_json_schema()\<close> describes a class as a JSON object: its properties by field
  name, the required fields, and the nested classes under \<open>$defs\<close>. A JSON object is
  kept as an association list; the order of its keys carries no meaning.
\<close>

datatype json = JNull | JBool bool | JInt int | JFloat pyfloat | JStr string
  | JArr "json list" | JObj "(string \<times> json) list"

fun json_of :: "pyval \<Rightarrow> json"
and json_of_items :: "(string \<times> pyval) list \<Rightarrow> (string \<times> json) list"
where
  "json_of PNone = JNull"
| "json_of (PBool b) = JBool b"
| "json_of (PInt i) = JInt i"
| "json_of (PFloat f) = JFloat f"
| "json_of (PStr s) = JStr s"
| "json_of (PList vs) = JArr (map json_of vs)"
| "json_of (PDict kw) = JObj (json_of_items kw)"
| "json_of_items [] = []"
| "json_of_items ((k, v) # kw) = (k, json_of v) # json_of_items kw"

text \<open>The title of a field: \<open>name.title()\<close> with the underscores replaced by spaces.\<close>

definition upper_char :: "char \<Rightarrow> char" where
  "upper_char c =
     (case map_of (zip ''abcdefghijklmnopqrstuvwxyz'' ''ABCDEFGHIJKLMNOPQRSTUVWXYZ'') c of
        None \<Rightarrow> c
      | Some d \<Rightarrow> d)"

definition is_letter :: "char \<Rightarrow> bool" where
  "is_letter c \<longleftrightarrow>
     c \<in> set ''abcdefghijklmnopqrstuvwxyzABCDEFGHIJKLMNOPQRSTUVWXYZ''"

fun title_chars :: "bool \<Rightarrow> string \<Rightarrow> string" where
  "title_chars start [] = []"
| "title_chars start (c # cs) =
     (if is_letter c
      then (if start then upper_char c else lower_char c) # title_chars False cs
      else c # title_chars True cs)"

definition field_title :: "string \<Rightarrow> string" where
  "field_title n = map (\<lambda>c. if c = CHR ''_'' then CHR '' '' else c) (title_chars True n)"

definition minimum_entry :: "int option \<Rightarrow> (string \<times> json) list" where
  "minimum_entry g = (case g of None \<Rightarrow> [] | Some b \<Rightarrow> [(''minimum'', JInt b)])"

fun type_schema :: "int option \<Rightarrow> ftype \<Rightarrow> (string \<times> json) list" where
  "type_schema g TStr = [(''type'', JStr ''string'')]"
| "type_schema g TInt = minimum_entry g @ [(''type'', JStr ''integer'')]"
| "type_schema g TFloat = minimum_entry g @ [(''type'', JStr ''number'')]"
| "type_schema g TBool = [(''type'', JStr ''boolean'')]"
| "type_schema g (TLiteral allowed) =
     [(''enum'', JArr (map JStr allowed)), (''type'', JStr ''string'')]"
| "type_schema g (TOptional t) =
     [(''anyOf'', JArr [JObj (type_schema g t), JObj [(''type'', JStr ''null'')]])]"
| "type_schema g (TList t) =
     [(''items'', JObj (type_schema None t)), (''type'', JStr ''array'')]"
| "type_schema g (TModel n fs) = [(''$ref'', JStr (''#/$defs/'' @ n))]"

definition default_entry :: "default \<Rightarrow> (string \<times> json) list" where
  "default_entry d = (case d of Default v \<Rightarrow> [(''default'', json_of v)] | _ \<Rightarrow> [])"

definition description_entry :: "string option \<Rightarrow> (string \<times> json) list" where
  "description_entry ds = (case ds of None \<Rightarrow> [] | Some s \<Rightarrow> [(''description'', JStr s)])"

definition field_schema :: "field \<Rightarrow> json" where
  "field_schema f =
     JObj (type_schema (fge f) (ftyp f) @ default_entry (fdefault f)
           @ description_entry (fdesc f) @ [(''title'', JStr (field_title (fname f)))])"

text \<open>The classes that the fields of a class refer to, each once.\<close>

fun nested_models :: "ftype \<Rightarrow> (string \<times> field list) list"
and nested_models_field :: "field \<Rightarrow> (string \<times> field list) list"
and nested_models_fields :: "field list \<Rightarrow> (string \<times> field list) list"
where
  "nested_models TStr = []"
| "nested_models TInt = []"
| "nested_models TFloat = []"
| "nested_models TBool = []"
| "nested_models (TLiteral allowed) = []"
| "nested_models (TOptional t) = nested_models t"
| "nested_models (TList t) = nested_models t"
| "nested_models (TModel n fs) = (n, fs) # nested_models_fields fs"
| "nested_models_field (Field n t d g ds) = nested_models t"
| "nested_models_fields [] = []"
| "nested_models_fields (f # fs) = nested_models_field f @ nested_models_fields fs"

definition required_entry :: "field list \<Rightarrow> (string \<times> json) list" where
  "required_entry fs =
     (let req = map fname (filter (\<lambda>f. fdefault f = Required) fs)
      in if req = [] then [] else [(''required'', JArr (map JStr req))])"

definition object_schema :: "string \<Rightarrow> field list \<Rightarrow> (string \<times> json) list" where
  "object_schema n fs =
     [(''properties'', JObj (map (\<lambda>f. (fname f, field_schema f)) fs))]
     @ required_entry fs
     @ [(''title'', JStr n), (''type'', JStr ''object'')]"

definition defs_entry :: "field list \<Rightarrow> (string \<times> json) list" where
  "defs_entry fs =
     (let ms = remdups (nested_models_fields fs)
      in if ms = [] then []
         else [(''$defs'', JObj (map (\<lambda>(n, gs). (n, JObj (object_schema n gs))) ms))])"

definition model_json_schema :: "model \<Rightarrow> json" where
  "model_json_schema m = JObj (defs_entry (mfields m) @ object_schema (mname m) (mfields m))"

text \<open>
  The handler \<open>get_schema\<close> reads the record definitions only. It is given the
  connection as the other handlers are and hands it back, so that what it does to the
  state, and whether it can fail, is part of its result.
\<close>

definition get_schema :: "db \<Rightarrow> (error + (string \<times> json) list) \<times> db" where
  "get_schema d =
     (Inr (map (\<lambda>(name, model). (name, model_json_schema model)) ALL_MODELS), d)"

text \<open>Reading a key of a JSON object.\<close>

definition json_get :: "json \<Rightarrow> string \<Rightarrow> json option" where
  "json_get j k = (case j of JObj kvs \<Rightarrow> map_of kvs k | _ \<Rightarrow> None)"

section \<open>Properties of construction\<close>

text \<open>
  Validation of a field list, in closed form: the errors are the names of the fields that
  fail, the instance holds the others.
\<close>

lemma validate_fields_fst:
  "fst (validate_fields lax fs kw) = map fname (filter (\<lambda>f. validate_field lax f kw = None) fs)"
  by (induction fs) (auto split: prod.splits option.splits)

lemma validate_fields_snd:
  "snd (validate_fields lax fs kw) =
     map (\<lambda>f. (fname f, the (validate_field lax f kw)))
       (filter (\<lambda>f. validate_field lax f kw \<noteq> None) fs)"
  by (induction fs) (auto split: prod.splits option.splits)

lemma construct_eq:
  "construct lax m kw =
     (if \<forall>f \<in> set (mfields m). validate_field lax f kw \<noteq> None
      then Inr (map (\<lambda>f. (fname f, the (validate_field lax f kw))) (mfields m))
      else Inl (ValidationError
             (map fname (filter (\<lambda>f. validate_field lax f kw = None) (mfields m)))))"
proof -
  obtain errs vals where ev: "validate_fields lax (mfields m) kw = (errs, vals)"
    by (cases "validate_fields lax (mfields m) kw")
  have e: "errs = map fname (filter (\<lambda>f. validate_field lax f kw = None) (mfields m))"
    using validate_fields_fst [of lax "mfields m" kw] ev by simp
  have v: "vals = map (\<lambda>f. (fname f, the (validate_field lax f kw)))
       (filter (\<lambda>f. validate_field lax f kw \<noteq> None) (mfields m))"
    using validate_fields_snd [of lax "mfields m" kw] ev by simp
  show ?thesis
  proof (cases "\<forall>f \<in> set (mfields m). validate_field lax f kw \<noteq> None")
    case True
    then have "filter (\<lambda>f. validate_field lax f kw = None) (mfields m) = []"
      by (simp add: filter_empty_conv)
    moreover from True have "filter (\<lambda>f. validate_field lax f kw \<noteq> None) (mfields m) = mfields m"
      by (simp add: filter_id_conv)
    ultimately show ?thesis using True ev e v by (simp add: construct_def)
  next
    case False
    then have "filter (\<lambda>f. validate_field lax f kw = None) (mfields m) \<noteq> []"
      by (simp add: filter_empty_conv)
    then obtain x xs where "errs = x # xs" using e by (cases errs) auto
    then show ?thesis using False ev e by (simp add: construct_def)
  qed
qed

lemma construct_fails:
  assumes "f \<in> set (mfields m)" and "validate_field lax f kw = None"
  shows "\<exists>fs. construct lax m kw = Inl (ValidationError fs) \<and> fname f \<in> set fs"
  using assms by (auto simp: construct_eq)

text \<open>
  The conversion of an \<open>int\<close> to a \<open>float\<close> is exact below \<open>2 ^ 53\<close> and never
  turns a negative number into a float that is not negative.
\<close>

lemma bit_length_lower: "0 < n \<Longrightarrow> 2 ^ (bit_length n - 1) \<le> n"
proof (induction n rule: bit_length.induct)
  case (1 n)
  show ?case
  proof (cases "n div 2 = 0")
    case True
    with "1.prems" have "n = 1" by presburger
    then show ?thesis by (simp add: bit_length.simps [of "Suc 0"] bit_length.simps [of 0])
  next
    case False
    then have pos: "0 < n div 2" by simp
    with "1.prems" "1.IH" have ih: "2 ^ (bit_length (n div 2) - 1) \<le> n div 2" by simp
    from pos have "0 < bit_length (n div 2)"
      by (subst bit_length.simps) simp
    then have "(2::nat) ^ bit_length (n div 2) = 2 * 2 ^ (bit_length (n div 2) - 1)"
      by (cases "bit_length (n div 2)") simp_all
    also have "\<dots> \<le> 2 * (n div 2)" using ih by simp
    also have "\<dots> \<le> n" by simp
    finally show ?thesis
      using "1.prems" by (subst bit_length.simps) simp
  qed
qed

lemma round_to_double_pos: "0 < n \<Longrightarrow> 0 < round_to_double n"
proof -
  assume n: "0 < n"
  show ?thesis
  proof (cases "n < 2 ^ 53")
    case True
    with n show ?thesis by (simp add: round_to_double_def)
  next
    case False
    have "(2::nat) ^ (bit_length n - 53) \<le> 2 ^ (bit_length n - 1)"
      by (rule power_increasing) simp_all
    also have "\<dots> \<le> n" using n by (rule bit_length_lower)
    finally have "0 < n div 2 ^ (bit_length n - 53)"
      by (simp add: div_greater_zero_iff)
    with False show ?thesis by (simp add: round_to_double_def Let_def)
  qed
qed

lemma int_to_float_small: "\<bar>i\<bar> < 2 ^ 53 \<Longrightarrow> int_to_float i = Some (Fin (of_int i))"
proof -
  assume a: "\<bar>i\<bar> < 2 ^ 53"
  then have "nat \<bar>i\<bar> < 2 ^ 53" by (simp add: nat_less_iff)
  then have r: "round_to_double (nat \<bar>i\<bar>) = nat \<bar>i\<bar>" by (simp add: round_to_double_def)
  have "nat \<bar>i\<bar> < 2 ^ 1024"
    using \<open>nat \<bar>i\<bar> < 2 ^ 53\<close> by (rule less_trans) simp
  then show ?thesis
    using r by (auto simp: int_to_float_def Let_def not_le [symmetric])
qed

lemma int_to_float_negative:
  "i < 0 \<Longrightarrow> int_to_float i = None \<or> (\<exists>r. int_to_float i = Some (Fin r) \<and> r < 0)"
proof -
  assume a: "i < 0"
  then have "0 < nat \<bar>i\<bar>" by simp
  then have "0 < round_to_double (nat \<bar>i\<bar>)" by (rule round_to_double_pos)
  with a show ?thesis by (simp add: int_to_float_def Let_def)
qed

text \<open>
  An \<open>int\<close> too large for a double is rejected, for the price of a \<open>Message\<close> as
  for any float field.
\<close>

lemma bit_length_power: "bit_length (2 ^ k) = Suc k"
  by (induction k) (simp_all add: bit_length.simps [of "Suc 0"] bit_length.simps [of 0]
      bit_length.simps [of "2 * 2 ^ k" for k])

lemma int_to_float_overflow: "int_to_float (2 ^ 1024) = None"
  using bit_length_power [of 1024]
  by (simp add: int_to_float_def round_to_double_def Let_def)

lemma Message_price_overflow:
  assumes "int_to_float i = None"
  shows "construct lax Message
     (map_of [(''conversation_id'', PStr c), (''direction'', PStr ''inbound''),
              (''price'', PInt i)])
   = Inl (ValidationError [''price''])"
  using assms by (simp add: construct_def Message_def)

lemma Message_price_too_large:
  "construct lax Message
     (map_of [(''conversation_id'', PStr c), (''direction'', PStr ''inbound''),
              (''price'', PInt (2 ^ 1024))])
   = Inl (ValidationError [''price''])"
  using int_to_float_overflow by (rule Message_price_overflow)

text \<open>
  C7. For every record kind of \<open>ALL_MODELS\<close>, constructing an instance from keyword
  arguments that omit a required field fails with a \<open>ValidationError\<close>, which names
  that field (so \<open>Bot\<close> without \<open>name\<close>, \<open>Team\<close> without \<open>name\<close>).
\<close>

theorem required_field_omitted:
  assumes "(n, m) \<in> set ALL_MODELS" and "f \<in> set (mfields m)"
    and "fdefault f = Required" and "kw (fname f) = None"
  shows "\<exists>fs. construct lax m kw = Inl (ValidationError fs) \<and> fname f \<in> set fs"
proof -
  have "validate_field lax f kw = None"
    using assms(3,4) by (cases f) simp
  then show ?thesis using assms(2) by (rule construct_fails [rotated])
qed

theorem required_field_omitted_witness:
  "(''Bot'', Bot) \<in> set ALL_MODELS
   \<and> Field ''name'' TStr Required None (Some ''Display name for this bot'') \<in> set (mfields Bot)
   \<and> (Map.empty :: kwargs) ''name'' = None
   \<and> (\<exists>fs. construct strict Bot Map.empty = Inl (ValidationError fs) \<and> ''name'' \<in> set fs)
   \<and> construct strict Bot Map.empty = Inl (ValidationError [''name''])
   \<and> construct strict Team Map.empty = Inl (ValidationError [''name''])"
proof -
  have a: "(''Bot'', Bot) \<in> set ALL_MODELS" by (simp add: ALL_MODELS_def)
  have b: "Field ''name'' TStr Required None (Some ''Display name for this bot'') \<in> set (mfields Bot)"
    by (simp add: Bot_def)
  have c: "fdefault (Field ''name'' TStr Required None (Some ''Display name for this bot'')) = Required"
    by simp
  have d: "(Map.empty :: kwargs) (fname (Field ''name'' TStr Required None (Some ''Display name for this bot''))) = None"
    by simp
  have e: "construct strict Bot Map.empty = Inl (ValidationError [''name''])"
    by (simp add: construct_def Bot_def)
  have f: "construct strict Team Map.empty = Inl (ValidationError [''name''])"
    by (simp add: construct_def Team_def)
  from required_field_omitted [OF a b c d, of strict] a b e f show ?thesis by simp
qed

text \<open>
  C1. Constructing a \<open>MediaItem\<close> fails with a \<open>ValidationError\<close> when the value
  given for \<open>type\<close> is not one of \<open>photo\<close>, \<open>video\<close>, \<open>document\<close> (the error
  names \<open>type\<close>), and when the \<open>price\<close> given is a negative number (the error names
  \<open>price\<close>). It succeeds, with the price kept as the float zero, when \<open>bot_id\<close>
  is a string, \<open>type\<close> one of the three literals, \<open>price\<close> zero, and every other
  field is absent or valid.
\<close>

theorem MediaItem_construction:
  "(kw ''type'' = Some v \<and> v \<notin> {PStr ''photo'', PStr ''video'', PStr ''document''}
      \<longrightarrow> (\<exists>fs. construct lax MediaItem kw = Inl (ValidationError fs) \<and> ''type'' \<in> set fs))
   \<and> (kw ''price'' = Some p
        \<and> ((\<exists>i. p = PInt i \<and> i < 0) \<or> (\<exists>r. p = PFloat (Fin r) \<and> r < 0) \<or> p = PFloat NegInf)
      \<longrightarrow> (\<exists>fs. construct lax MediaItem kw = Inl (ValidationError fs) \<and> ''price'' \<in> set fs))
   \<and> (kw ''bot_id'' = Some (PStr b) \<and> kw ''type'' = Some (PStr t)
        \<and> t \<in> {''photo'', ''video'', ''document''}
        \<and> kw ''price'' \<in> {Some (PInt 0), Some (PFloat (Fin 0))}
        \<and> (\<forall>f \<in> set (mfields MediaItem).
              fname f \<notin> {''bot_id'', ''type'', ''price''} \<longrightarrow> validate_field lax f kw \<noteq> None)
      \<longrightarrow> (\<exists>inst. construct lax MediaItem kw = Inr inst
            \<and> map_of inst ''bot_id'' = Some (PStr b) \<and> map_of inst ''type'' = Some (PStr t)
            \<and> map_of inst ''price'' = Some (PFloat (Fin 0))))"
proof (intro conjI impI)
  assume a: "kw ''type'' = Some v \<and> v \<notin> {PStr ''photo'', PStr ''video'', PStr ''document''}"
  let ?f = "Field ''type'' (TLiteral [''photo'', ''video'', ''document'']) Required None
       (Some ''Telegram media type'')"
  have "?f \<in> set (mfields MediaItem)" by (simp add: MediaItem_def)
  moreover have "validate_field lax ?f kw = None"
    using a by (cases v) auto
  ultimately show "\<exists>fs. construct lax MediaItem kw = Inl (ValidationError fs) \<and> ''type'' \<in> set fs"
    using construct_fails [of ?f MediaItem lax kw] by simp
next
  assume a: "kw ''price'' = Some p
        \<and> ((\<exists>i. p = PInt i \<and> i < 0) \<or> (\<exists>r. p = PFloat (Fin r) \<and> r < 0) \<or> p = PFloat NegInf)"
  let ?f = "Field ''price'' (TOptional TFloat) (Default PNone) (Some 0)
       (Some ''Price in Stars or currency equivalent'')"
  have "?f \<in> set (mfields MediaItem)" by (simp add: MediaItem_def)
  moreover have "validate_field lax ?f kw = None"
  proof -
    consider i where "p = PInt i" "i < 0" | r where "p = PFloat (Fin r)" "r < 0"
      | "p = PFloat NegInf"
      using a by blast
    then show ?thesis
    proof cases
      case 1
      with a int_to_float_negative [of i] show ?thesis by auto
    next
      case 2
      with a show ?thesis by simp
    next
      case 3
      with a show ?thesis by simp
    qed
  qed
  ultimately show "\<exists>fs. construct lax MediaItem kw = Inl (ValidationError fs) \<and> ''price'' \<in> set fs"
    using construct_fails [of ?f MediaItem lax kw] by simp
next
  assume a: "kw ''bot_id'' = Some (PStr b) \<and> kw ''type'' = Some (PStr t)
        \<and> t \<in> {''photo'', ''video'', ''document''}
        \<and> kw ''price'' \<in> {Some (PInt 0), Some (PFloat (Fin 0))}
        \<and> (\<forall>f \<in> set (mfields MediaItem).
              fname f \<notin> {''bot_id'', ''type'', ''price''} \<longrightarrow> validate_field lax f kw \<noteq> None)"
  have ok: "\<forall>f \<in> set (mfields MediaItem). validate_field lax f kw \<noteq> None"
    using a by (auto simp: MediaItem_def int_to_float_small)
  then have "construct lax MediaItem kw =
      Inr (map (\<lambda>f. (fname f, the (validate_field lax f kw))) (mfields MediaItem))"
    by (simp add: construct_eq)
  moreover have "map_of (map (\<lambda>f. (fname f, the (validate_field lax f kw))) (mfields MediaItem)) ''bot_id'' = Some (PStr b)"
    using a by (simp add: MediaItem_def)
  moreover have "map_of (map (\<lambda>f. (fname f, the (validate_field lax f kw))) (mfields MediaItem)) ''type'' = Some (PStr t)"
    using a by (auto simp: MediaItem_def int_to_float_small)
  moreover have "map_of (map (\<lambda>f. (fname f, the (validate_field lax f kw))) (mfields MediaItem)) ''price'' = Some (PFloat (Fin 0))"
    using a by (auto simp: MediaItem_def int_to_float_small)
  ultimately show "\<exists>inst. construct lax MediaItem kw = Inr inst
            \<and> map_of inst ''bot_id'' = Some (PStr b) \<and> map_of inst ''type'' = Some (PStr t)
            \<and> map_of inst ''price'' = Some (PFloat (Fin 0))"
    by simp
qed

theorem MediaItem_construction_witness:
  "construct strict MediaItem (map_of [(''bot_id'', PStr ''bot1''), (''type'', PStr ''audio'')])
     = Inl (ValidationError [''type''])
   \<and> (\<exists>fs. construct strict MediaItem
              (map_of [(''bot_id'', PStr ''bot1''), (''type'', PStr ''audio'')])
            = Inl (ValidationError fs) \<and> ''type'' \<in> set fs)
   \<and> construct strict MediaItem
        (map_of [(''bot_id'', PStr ''bot1''), (''type'', PStr ''photo''), (''price'', PInt (- 1))])
     = Inl (ValidationError [''price''])
   \<and> (\<exists>fs. construct strict MediaItem
              (map_of [(''bot_id'', PStr ''bot1''), (''type'', PStr ''photo''),
                       (''price'', PInt (- 1))])
            = Inl (ValidationError fs) \<and> ''price'' \<in> set fs)
   \<and> construct strict MediaItem
        (map_of [(''bot_id'', PStr ''bot1''), (''type'', PStr ''photo''), (''price'', PInt 0)])
     = Inr [(''bot_id'', PStr ''bot1''), (''type'', PStr ''photo''), (''caption'', PNone),
            (''price'', PFloat (Fin 0)), (''external_url'', PNone),
            (''telegram_file_id'', PNone), (''tags'', PList []), (''thumbnail_url'', PNone)]
   \<and> (\<exists>inst. construct strict MediaItem
              (map_of [(''bot_id'', PStr ''bot1''), (''type'', PStr ''photo''),
                       (''price'', PInt 0)]) = Inr inst
            \<and> map_of inst ''price'' = Some (PFloat (Fin 0)))"
proof -
  let ?k1 = "map_of [(''bot_id'', PStr ''bot1''), (''type'', PStr ''audio'')]"
  let ?k2 = "map_of [(''bot_id'', PStr ''bot1''), (''type'', PStr ''photo''),
                     (''price'', PInt (- 1))]"
  let ?k3 = "map_of [(''bot_id'', PStr ''bot1''), (''type'', PStr ''photo''),
                     (''price'', PInt 0)]"
  have h1: "?k1 ''type'' = Some (PStr ''audio'')
            \<and> PStr ''audio'' \<notin> {PStr ''photo'', PStr ''video'', PStr ''document''}"
    by simp
  have h2: "?k2 ''price'' = Some (PInt (- 1))
            \<and> ((\<exists>i. PInt (- 1) = PInt i \<and> i < 0) \<or> (\<exists>r. PInt (- 1) = PFloat (Fin r) \<and> r < 0)
                \<or> PInt (- 1) = PFloat NegInf)"
    by simp
  have h3: "?k3 ''bot_id'' = Some (PStr ''bot1'') \<and> ?k3 ''type'' = Some (PStr ''photo'')
        \<and> ''photo'' \<in> {''photo'', ''video'', ''document''}
        \<and> ?k3 ''price'' \<in> {Some (PInt 0), Some (PFloat (Fin 0))}
        \<and> (\<forall>f \<in> set (mfields MediaItem).
              fname f \<notin> {''bot_id'', ''type'', ''price''} \<longrightarrow> validate_field strict f ?k3 \<noteq> None)"
    by (simp add: MediaItem_def int_to_float_small)
  have e1: "construct strict MediaItem ?k1 = Inl (ValidationError [''type''])"
    by (simp add: construct_def MediaItem_def int_to_float_small)
  have e2: "construct strict MediaItem ?k2 = Inl (ValidationError [''price''])"
    by (simp add: construct_def MediaItem_def int_to_float_small)
  have e3: "construct strict MediaItem ?k3
     = Inr [(''bot_id'', PStr ''bot1''), (''type'', PStr ''photo''), (''caption'', PNone),
            (''price'', PFloat (Fin 0)), (''external_url'', PNone),
            (''telegram_file_id'', PNone), (''tags'', PList []), (''thumbnail_url'', PNone)]"
    by (simp add: construct_def MediaItem_def int_to_float_small)
  note t1 = MediaItem_construction [where kw = ?k1 and v = "PStr ''audio''" and lax = strict,
      THEN conjunct1, THEN mp, OF h1]
  note t2 = MediaItem_construction [where kw = ?k2 and p = "PInt (- 1)" and lax = strict,
      THEN conjunct2, THEN conjunct1, THEN mp, OF h2]
  note t3 = MediaItem_construction [where kw = ?k3 and b = "''bot1''" and t = "''photo''"
      and lax = strict, THEN conjunct2, THEN conjunct2, THEN mp, OF h3]
  from t1 t2 t3 e1 e2 e3 show ?thesis by auto
qed

text \<open>
  C5. Constructing a \<open>Message\<close> fails with a \<open>ValidationError\<close> when the value
  given for \<open>direction\<close> is neither \<open>inbound\<close> nor \<open>outbound\<close> (the error names
  \<open>direction\<close>). With \<open>direction\<close> \<open>inbound\<close>, a string \<open>conversation_id\<close>,
  \<open>paid\<close> not supplied and every other field absent or valid, it succeeds and the
  instance has \<open>paid\<close> false.
\<close>

theorem Message_construction:
  "(kw ''direction'' = Some v \<and> v \<notin> {PStr ''inbound'', PStr ''outbound''}
      \<longrightarrow> (\<exists>fs. construct lax Message kw = Inl (ValidationError fs) \<and> ''direction'' \<in> set fs))
   \<and> (kw ''conversation_id'' = Some (PStr c) \<and> kw ''direction'' = Some (PStr ''inbound'')
        \<and> kw ''paid'' = None
        \<and> (\<forall>f \<in> set (mfields Message).
              fname f \<notin> {''conversation_id'', ''direction'', ''paid''}
              \<longrightarrow> validate_field lax f kw \<noteq> None)
      \<longrightarrow> (\<exists>inst. construct lax Message kw = Inr inst
            \<and> map_of inst ''conversation_id'' = Some (PStr c)
            \<and> map_of inst ''direction'' = Some (PStr ''inbound'')
            \<and> map_of inst ''paid'' = Some (PBool False)))"
proof (intro conjI impI)
  assume a: "kw ''direction'' = Some v \<and> v \<notin> {PStr ''inbound'', PStr ''outbound''}"
  let ?f = "Field ''direction'' (TLiteral [''inbound'', ''outbound'']) Required None
       (Some ''Message direction'')"
  have "?f \<in> set (mfields Message)" by (simp add: Message_def)
  moreover have "validate_field lax ?f kw = None"
    using a by (cases v) auto
  ultimately show
    "\<exists>fs. construct lax Message kw = Inl (ValidationError fs) \<and> ''direction'' \<in> set fs"
    using construct_fails [of ?f Message lax kw] by simp
next
  assume a: "kw ''conversation_id'' = Some (PStr c) \<and> kw ''direction'' = Some (PStr ''inbound'')
        \<and> kw ''paid'' = None
        \<and> (\<forall>f \<in> set (mfields Message).
              fname f \<notin> {''conversation_id'', ''direction'', ''paid''}
              \<longrightarrow> validate_field lax f kw \<noteq> None)"
  let ?inst = "map (\<lambda>f. (fname f, the (validate_field lax f kw))) (mfields Message)"
  have ok: "\<forall>f \<in> set (mfields Message). validate_field lax f kw \<noteq> None"
    using a by (auto simp: Message_def)
  then have "construct lax Message kw = Inr ?inst"
    by (simp add: construct_eq)
  moreover have "map_of ?inst ''conversation_id'' = Some (PStr c)"
    using a by (simp add: Message_def)
  moreover have "map_of ?inst ''direction'' = Some (PStr ''inbound'')"
    using a by (simp add: Message_def)
  moreover have "map_of ?inst ''paid'' = Some (PBool False)"
    using a by (simp add: Message_def)
  ultimately show "\<exists>inst. construct lax Message kw = Inr inst
            \<and> map_of inst ''conversation_id'' = Some (PStr c)
            \<and> map_of inst ''direction'' = Some (PStr ''inbound'')
            \<and> map_of inst ''paid'' = Some (PBool False)"
    by simp
qed

theorem Message_construction_witness:
  "construct strict Message
      (map_of [(''conversation_id'', PStr ''c1''), (''direction'', PStr ''sideways'')])
     = Inl (ValidationError [''direction''])
   \<and> (\<exists>fs. construct strict Message
              (map_of [(''conversation_id'', PStr ''c1''), (''direction'', PStr ''sideways'')])
            = Inl (ValidationError fs) \<and> ''direction'' \<in> set fs)
   \<and> construct strict Message
        (map_of [(''conversation_id'', PStr ''c1''), (''direction'', PStr ''inbound'')])
     = Inr [(''conversation_id'', PStr ''c1''), (''direction'', PStr ''inbound''),
            (''text'', PNone), (''media_item_id'', PNone), (''price'', PNone),
            (''paid'', PBool False), (''telegram_message_id'', PNone),
            (''telegram_file_id'', PNone)]
   \<and> (\<exists>inst. construct strict Message
              (map_of [(''conversation_id'', PStr ''c1''), (''direction'', PStr ''inbound'')])
            = Inr inst \<and> map_of inst ''paid'' = Some (PBool False))"
proof -
  let ?k1 = "map_of [(''conversation_id'', PStr ''c1''), (''direction'', PStr ''sideways'')]"
  let ?k2 = "map_of [(''conversation_id'', PStr ''c1''), (''direction'', PStr ''inbound'')]"
  have h1: "?k1 ''direction'' = Some (PStr ''sideways'')
            \<and> PStr ''sideways'' \<notin> {PStr ''inbound'', PStr ''outbound''}"
    by simp
  have h2: "?k2 ''conversation_id'' = Some (PStr ''c1'')
        \<and> ?k2 ''direction'' = Some (PStr ''inbound'') \<and> ?k2 ''paid'' = None
        \<and> (\<forall>f \<in> set (mfields Message).
              fname f \<notin> {''conversation_id'', ''direction'', ''paid''}
              \<longrightarrow> validate_field strict f ?k2 \<noteq> None)"
    by (simp add: Message_def)
  have e1: "construct strict Message ?k1 = Inl (ValidationError [''direction''])"
    by (simp add: construct_def Message_def)
  have e2: "construct strict Message ?k2
     = Inr [(''conversation_id'', PStr ''c1''), (''direction'', PStr ''inbound''),
            (''text'', PNone), (''media_item_id'', PNone), (''price'', PNone),
            (''paid'', PBool False), (''telegram_message_id'', PNone),
            (''telegram_file_id'', PNone)]"
    by (simp add: construct_def Message_def)
  note t1 = Message_construction [where kw = ?k1 and v = "PStr ''sideways''" and lax = strict,
      THEN conjunct1, THEN mp, OF h1]
  note t2 = Message_construction [where kw = ?k2 and c = "''c1''" and lax = strict,
      THEN conjunct2, THEN mp, OF h2]
  from t1 t2 e1 e2 show ?thesis by auto
qed

section \<open>Properties of the store and the handlers\<close>

lemma lower_kinds:
  "lower ''mediaitem'' = ''mediaitem''" "lower ''conversation'' = ''conversation''"
  "lower ''message'' = ''message''" "lower ''bot'' = ''bot''"
  by (simp_all add: lower_def lower_char_def)

lemma stringify_ids_surfaced:
  "it \<in> set (stringify_ids items) \<Longrightarrow> \<exists>s. doc_id it = IdStr s"
  by (auto simp: stringify_ids_def)

lemma create_document_online:
  "online st \<Longrightarrow> create_document (Some st) kind data =
     (Inr (str_ident (ObjectId (next_oid st))),
      Some (st\<lparr>collections := (collections st)
                  (lower kind := collections st (lower kind)
                     @ [\<lparr>doc_id = ObjectId (next_oid st), body = data\<rparr>]),
               next_oid := next_oid st + 1\<rparr>))"
  by (simp add: create_document_def Let_def)

lemma Message_of_request:
  "construct lax Message (map_of (message_kwargs payload)) =
     Inr [(''conversation_id'', PStr (conversation_id payload)),
          (''direction'', PStr ''outbound''),
          (''text'', opt_val PStr (text_body payload)),
          (''media_item_id'', opt_val PStr (media_item_id payload)),
          (''price'', opt_val PFloat (SendMessageRequest.price payload)),
          (''paid'', PBool (paid payload)),
          (''telegram_message_id'', PInt 123456),
          (''telegram_file_id'', PNone)]"
  by (simp add: construct_def Message_def message_kwargs_def opt_val_def split: option.splits)

lemma Bot_of_request:
  "construct lax Bot (map_of (bot_kwargs payload)) =
     Inr [(''name'', PStr (name payload)),
          (''username'', opt_val PStr (username payload)),
          (''token'', PNone), (''team_id'', PNone), (''welcome_message'', PNone),
          (''is_active'', PBool True)]"
  by (simp add: construct_def Bot_def bot_kwargs_def opt_val_def split: option.splits)

text \<open>
  C4. For every kind and record, \<open>create_document\<close> called while the connection is
  unset fails with \<open>StorageUnavailable\<close>, and with nothing else; when the connection
  exists but the store cannot be reached, the insert fails with \<open>StorageError\<close>. In
  both cases the store is left as it was.
\<close>

theorem create_without_store:
  "create_document None kind data = (Inl StorageUnavailable, None)
   \<and> (\<not> online st \<longrightarrow> create_document (Some st) kind data = (Inl StorageError, Some st))"
  by (simp add: create_document_def)

theorem create_without_store_witness:
  "create_document None ''mediaitem'' [(''bot_id'', PStr ''bot1'')]
     = (Inl StorageUnavailable, None)
   \<and> \<not> online \<lparr>collections = (\<lambda>_. []), next_oid = 0, online = False\<rparr>
   \<and> create_document (Some \<lparr>collections = (\<lambda>_. []), next_oid = 0, online = False\<rparr>)
        ''mediaitem'' [(''bot_id'', PStr ''bot1'')]
     = (Inl StorageError, Some \<lparr>collections = (\<lambda>_. []), next_oid = 0, online = False\<rparr>)"
proof -
  have h: "\<not> online \<lparr>collections = (\<lambda>_. []), next_oid = 0, online = False\<rparr>" by simp
  from create_without_store [of "''mediaitem''" "[(''bot_id'', PStr ''bot1'')]"
      "\<lparr>collections = (\<lambda>_. []), next_oid = 0, online = False\<rparr>"] h
  show ?thesis by simp
qed

text \<open>
  C3. For every kind, filter and limit, and whatever the state of the store (no
  connection, a store that cannot be reached, or a working one), a query that no document
  of the collection matches returns the empty sequence; it has no error to return, and
  the conversion of the identifiers in the handlers keeps it empty.
\<close>

theorem query_no_match_empty:
  assumes "\<forall>st. d = Some st \<and> online st
             \<longrightarrow> (\<forall>doc \<in> set (collections st (lower kind)). \<not> matches flt doc)"
  shows "get_documents d kind flt limit = []
         \<and> stringify_ids (get_documents d kind flt limit) = []"
proof -
  have "get_documents d kind flt limit = []"
  proof (cases d)
    case None
    then show ?thesis by (simp add: get_documents_def)
  next
    case (Some st)
    show ?thesis
    proof (cases "online st")
      case True
      with Some assms have "filter (matches flt) (collections st (lower kind)) = []"
        by (simp add: filter_empty_conv)
      with Some True show ?thesis by (simp add: get_documents_def)
    next
      case False
      with Some show ?thesis by (simp add: get_documents_def)
    qed
  qed
  then show ?thesis by (simp add: stringify_ids_def)
qed

theorem query_no_match_empty_witness:
  "get_documents None ''mediaitem'' [(''bot_id'', PStr ''bot1'')] 50 = []
   \<and> get_documents (Some \<lparr>collections = (\<lambda>_. []), next_oid = 0, online = False\<rparr>)
        ''mediaitem'' [(''bot_id'', PStr ''bot1'')] 50 = []
   \<and> get_documents
        (Some \<lparr>collections = (\<lambda>_. [\<lparr>doc_id = ObjectId 0, body = [(''bot_id'', PStr ''bot2'')]\<rparr>]),
               next_oid = 1, online = True\<rparr>)
        ''mediaitem'' [(''bot_id'', PStr ''bot1'')] 50 = []
   \<and> list_media
        (Some \<lparr>collections = (\<lambda>_. [\<lparr>doc_id = ObjectId 0, body = [(''bot_id'', PStr ''bot2'')]\<rparr>]),
               next_oid = 1, online = True\<rparr>)
        (Some ''bot1'') 50 = []"
proof -
  let ?flt = "[(''bot_id'', PStr ''bot1'')]"
  let ?off = "\<lparr>collections = (\<lambda>_. []), next_oid = 0, online = False\<rparr>"
  let ?st = "\<lparr>collections = (\<lambda>_. [\<lparr>doc_id = ObjectId 0, body = [(''bot_id'', PStr ''bot2'')]\<rparr>]),
               next_oid = 1, online = True\<rparr>"
  have h1: "\<forall>st. (None :: db) = Some st \<and> online st
             \<longrightarrow> (\<forall>doc \<in> set (collections st (lower ''mediaitem'')). \<not> matches ?flt doc)"
    by simp
  have h2: "\<forall>st. Some ?off = Some st \<and> online st
             \<longrightarrow> (\<forall>doc \<in> set (collections st (lower ''mediaitem'')). \<not> matches ?flt doc)"
    by auto
  have h3: "\<forall>st. Some ?st = Some st \<and> online st
             \<longrightarrow> (\<forall>doc \<in> set (collections st (lower ''mediaitem'')). \<not> matches ?flt doc)"
    by (auto simp: matches_def)
  from query_no_match_empty [OF h1, of 50] query_no_match_empty [OF h2, of 50]
    query_no_match_empty [OF h3, of 50]
  show ?thesis by (simp add: list_media_def stringify_ids_def)
qed

text \<open>
  C6. Every document returned by a listing handler (media, conversations, messages,
  bots) has its identifier as a string, never as the native \<open>ObjectId\<close>.
\<close>

theorem listed_ids_are_strings:
  "\<forall>it \<in> set (list_media d b limit) \<union> set (list_conversations d b' limit)
          \<union> set (list_messages d c limit) \<union> set (list_bots d limit).
     \<exists>s. doc_id it = IdStr s"
  by (auto simp: list_media_def list_conversations_def list_messages_def list_bots_def
      dest: stringify_ids_surfaced)

theorem listed_ids_are_strings_witness:
  "list_bots
     (Some \<lparr>collections = (\<lambda>_. [\<lparr>doc_id = ObjectId 0, body = [(''name'', PStr ''b'')]\<rparr>]),
            next_oid = 1, online = True\<rparr>) 20
   = [\<lparr>doc_id = IdStr (str_ident (ObjectId 0)), body = [(''name'', PStr ''b'')]\<rparr>]
   \<and> (\<exists>s. doc_id (hd (list_bots
          (Some \<lparr>collections = (\<lambda>_. [\<lparr>doc_id = ObjectId 0, body = [(''name'', PStr ''b'')]\<rparr>]),
                 next_oid = 1, online = True\<rparr>) 20)) = IdStr s)"
proof -
  let ?d = "Some \<lparr>collections = (\<lambda>_. [\<lparr>doc_id = ObjectId 0, body = [(''name'', PStr ''b'')]\<rparr>]),
            next_oid = 1, online = True\<rparr>"
  have e: "list_bots ?d 20
     = [\<lparr>doc_id = IdStr (str_ident (ObjectId 0)), body = [(''name'', PStr ''b'')]\<rparr>]"
    by (simp add: list_bots_def get_documents_def stringify_ids_def matches_def)
  from listed_ids_are_strings [of ?d None 20 "''x''" "''y''"] e show ?thesis
    by simp
qed

text \<open>
  C9. In \<open>list_media\<close> an empty \<open>bot_id\<close> is treated as no \<open>bot_id\<close>: the filter
  is dropped, and on a working store the media items of every bot come back, up to the
  limit, rather than those whose \<open>bot_id\<close> is the empty string.
\<close>

theorem list_media_empty_bot_id:
  "list_media d (Some '''') limit = list_media d None limit
   \<and> (online st \<longrightarrow>
        list_media (Some st) (Some '''') limit
          = stringify_ids (take (nat limit) (collections st ''mediaitem'')))"
  by (simp add: list_media_def get_documents_def matches_def lower_kinds)

theorem list_media_empty_bot_id_witness:
  "online \<lparr>collections = (\<lambda>_. [\<lparr>doc_id = ObjectId 0, body = [(''bot_id'', PStr ''a'')]\<rparr>,
                               \<lparr>doc_id = ObjectId 1, body = [(''bot_id'', PStr ''b'')]\<rparr>]),
           next_oid = 2, online = True\<rparr>
   \<and> list_media
       (Some \<lparr>collections = (\<lambda>_. [\<lparr>doc_id = ObjectId 0, body = [(''bot_id'', PStr ''a'')]\<rparr>,
                                   \<lparr>doc_id = ObjectId 1, body = [(''bot_id'', PStr ''b'')]\<rparr>]),
              next_oid = 2, online = True\<rparr>) (Some '''') 50
     = [\<lparr>doc_id = IdStr (str_ident (ObjectId 0)), body = [(''bot_id'', PStr ''a'')]\<rparr>,
        \<lparr>doc_id = IdStr (str_ident (ObjectId 1)), body = [(''bot_id'', PStr ''b'')]\<rparr>]
   \<and> list_media
       (Some \<lparr>collections = (\<lambda>_. [\<lparr>doc_id = ObjectId 0, body = [(''bot_id'', PStr ''a'')]\<rparr>,
                                   \<lparr>doc_id = ObjectId 1, body = [(''bot_id'', PStr ''b'')]\<rparr>]),
              next_oid = 2, online = True\<rparr>) (Some ''a'') 50
     = [\<lparr>doc_id = IdStr (str_ident (ObjectId 0)), body = [(''bot_id'', PStr ''a'')]\<rparr>]"
proof -
  let ?st = "\<lparr>collections = (\<lambda>_. [\<lparr>doc_id = ObjectId 0, body = [(''bot_id'', PStr ''a'')]\<rparr>,
                               \<lparr>doc_id = ObjectId 1, body = [(''bot_id'', PStr ''b'')]\<rparr>]),
           next_oid = 2, online = True\<rparr>"
  have h: "online ?st" by simp
  have e: "list_media (Some ?st) (Some ''a'') 50
     = [\<lparr>doc_id = IdStr (str_ident (ObjectId 0)), body = [(''bot_id'', PStr ''a'')]\<rparr>]"
    by (simp add: list_media_def get_documents_def stringify_ids_def matches_def)
  from list_media_empty_bot_id [of "Some ?st" 50 ?st, THEN conjunct2, THEN mp, OF h] h e
  show ?thesis
    by (simp add: stringify_ids_def)
qed

text \<open>
  C2. For every request, \<open>send_message\<close> builds a message with direction
  \<open>outbound\<close> and the placeholder \<open>telegram_message_id\<close> 123456. On a working store
  its whole effect is to append that message to the collection \<open>message\<close>, and it
  returns the new identifier with the same placeholder; with no connection it stores
  nothing and fails. Nothing is delivered: the store is the only state it touches.
\<close>

theorem send_message_placeholder:
  "send_message lax None payload = (Inl StorageUnavailable, None)
   \<and> (online st \<longrightarrow>
        send_message lax (Some st) payload =
          (Inr [(''id'', PStr (str_ident (ObjectId (next_oid st)))),
                (''telegram_message_id'', PInt 123456)],
           Some (st\<lparr>collections := (collections st)
                  (''message'' := collections st ''message''
                     @ [\<lparr>doc_id = ObjectId (next_oid st),
                         body = [(''conversation_id'', PStr (conversation_id payload)),
                                 (''direction'', PStr ''outbound''),
                                 (''text'', opt_val PStr (text_body payload)),
                                 (''media_item_id'', opt_val PStr (media_item_id payload)),
                                 (''price'', opt_val PFloat (SendMessageRequest.price payload)),
                                 (''paid'', PBool (paid payload)),
                                 (''telegram_message_id'', PInt 123456),
                                 (''telegram_file_id'', PNone)]\<rparr>]),
               next_oid := next_oid st + 1\<rparr>)))"
proof (intro conjI impI)
  show "send_message lax None payload = (Inl StorageUnavailable, None)"
    by (simp add: send_message_def Message_of_request create_document_def)
next
  assume "online st"
  then show "send_message lax (Some st) payload =
          (Inr [(''id'', PStr (str_ident (ObjectId (next_oid st)))),
                (''telegram_message_id'', PInt 123456)],
           Some (st\<lparr>collections := (collections st)
                  (''message'' := collections st ''message''
                     @ [\<lparr>doc_id = ObjectId (next_oid st),
                         body = [(''conversation_id'', PStr (conversation_id payload)),
                                 (''direction'', PStr ''outbound''),
                                 (''text'', opt_val PStr (text_body payload)),
                                 (''media_item_id'', opt_val PStr (media_item_id payload)),
                                 (''price'', opt_val PFloat (SendMessageRequest.price payload)),
                                 (''paid'', PBool (paid payload)),
                                 (''telegram_message_id'', PInt 123456),
                                 (''telegram_file_id'', PNone)]\<rparr>]),
               next_oid := next_oid st + 1\<rparr>))"
    by (simp add: send_message_def Message_of_request create_document_online lower_kinds
        getattr_def)
qed

theorem send_message_placeholder_witness:
  "online \<lparr>collections = (\<lambda>_. []), next_oid = 0, online = True\<rparr>
   \<and> fst (send_message strict (Some \<lparr>collections = (\<lambda>_. []), next_oid = 0, online = True\<rparr>)
        \<lparr>conversation_id = ''c1'', text_body = Some ''hi'', media_item_id = None,
         paid = False, price = None\<rparr>)
     = Inr [(''id'', PStr (str_ident (ObjectId 0))), (''telegram_message_id'', PInt 123456)]
   \<and> list_messages
        (snd (send_message strict
           (Some \<lparr>collections = (\<lambda>_. []), next_oid = 0, online = True\<rparr>)
           \<lparr>conversation_id = ''c1'', text_body = Some ''hi'', media_item_id = None,
            paid = False, price = None\<rparr>)) ''c1'' 100
     = [\<lparr>doc_id = IdStr (str_ident (ObjectId 0)),
         body = [(''conversation_id'', PStr ''c1''), (''direction'', PStr ''outbound''),
                 (''text'', PStr ''hi''), (''media_item_id'', PNone), (''price'', PNone),
                 (''paid'', PBool False), (''telegram_message_id'', PInt 123456),
                 (''telegram_file_id'', PNone)]\<rparr>]"
proof -
  let ?st = "\<lparr>collections = (\<lambda>_. []), next_oid = 0, online = True\<rparr>"
  let ?p = "\<lparr>conversation_id = ''c1'', text_body = Some ''hi'', media_item_id = None,
         paid = False, price = None\<rparr>"
  have h: "online ?st" by simp
  from send_message_placeholder [of strict ?p ?st, THEN conjunct2, THEN mp, OF h] h
  show ?thesis
    by (simp add: list_messages_def get_documents_def stringify_ids_def matches_def
        lower_kinds opt_val_def)
qed

text \<open>
  C10. For every request, the \<open>Bot\<close> that \<open>create_bot\<close> builds takes \<open>name\<close> and
  \<open>username\<close> from the request and has \<open>token\<close>, \<open>team_id\<close> and
  \<open>welcome_message\<close> \<open>None\<close> and \<open>is_active\<close> true; on a working store that is
  the document stored.
\<close>

theorem create_bot_defaults:
  "construct lax Bot (map_of (bot_kwargs payload)) =
     Inr [(''name'', PStr (name payload)),
          (''username'', opt_val PStr (username payload)),
          (''token'', PNone), (''team_id'', PNone), (''welcome_message'', PNone),
          (''is_active'', PBool True)]
   \<and> (online st \<longrightarrow>
        create_bot lax (Some st) payload =
          (Inr [(''id'', PStr (str_ident (ObjectId (next_oid st))))],
           Some (st\<lparr>collections := (collections st)
                  (''bot'' := collections st ''bot''
                     @ [\<lparr>doc_id = ObjectId (next_oid st),
                         body = [(''name'', PStr (name payload)),
                                 (''username'', opt_val PStr (username payload)),
                                 (''token'', PNone), (''team_id'', PNone),
                                 (''welcome_message'', PNone),
                                 (''is_active'', PBool True)]\<rparr>]),
               next_oid := next_oid st + 1\<rparr>)))"
  by (simp add: create_bot_def Bot_of_request create_document_online lower_kinds)

theorem create_bot_defaults_witness:
  "online \<lparr>collections = (\<lambda>_. []), next_oid = 0, online = True\<rparr>
   \<and> fst (create_bot strict (Some \<lparr>collections = (\<lambda>_. []), next_oid = 0, online = True\<rparr>)
        \<lparr>name = ''Demo'', username = Some ''demo_bot''\<rparr>)
     = Inr [(''id'', PStr (str_ident (ObjectId 0)))]
   \<and> list_bots
        (snd (create_bot strict (Some \<lparr>collections = (\<lambda>_. []), next_oid = 0, online = True\<rparr>)
           \<lparr>name = ''Demo'', username = Some ''demo_bot''\<rparr>)) 20
     = [\<lparr>doc_id = IdStr (str_ident (ObjectId 0)),
         body = [(''name'', PStr ''Demo''), (''username'', PStr ''demo_bot''),
                 (''token'', PNone), (''team_id'', PNone), (''welcome_message'', PNone),
                 (''is_active'', PBool True)]\<rparr>]"
proof -
  let ?st = "\<lparr>collections = (\<lambda>_. []), next_oid = 0, online = True\<rparr>"
  let ?p = "\<lparr>name = ''Demo'', username = Some ''demo_bot''\<rparr>"
  have h: "online ?st" by simp
  from create_bot_defaults [of strict ?p ?st, THEN conjunct2, THEN mp, OF h] h
  show ?thesis
    by (simp add: list_bots_def get_documents_def stringify_ids_def matches_def
        lower_kinds opt_val_def)
qed

section \<open>Properties of the schema export\<close>

lemma type_schema_keys:
  "fst ` set (type_schema g t) \<subseteq> {''type'', ''minimum'', ''enum'', ''anyOf'', ''items'', ''$ref''}"
  by (cases t) (auto simp: minimum_entry_def split: option.splits)

lemma map_of_append_notin:
  "k \<notin> fst ` set xs \<Longrightarrow> map_of (xs @ ys) k = map_of ys k"
  by (induction xs) auto

lemma field_schema_default:
  assumes "field_schema f = JObj p"
  shows "map_of p ''default'' = (case fdefault f of Default v \<Rightarrow> Some (json_of v) | _ \<Rightarrow> None)"
proof -
  have a: "''default'' \<notin> fst ` set (type_schema (fge f) (ftyp f))"
    using type_schema_keys [of "fge f" "ftyp f"] by auto
  have b: "map_of (description_entry (fdesc f) @ [(''title'', JStr (field_title (fname f)))])
             ''default'' = None"
    by (simp add: description_entry_def split: option.splits)
  show ?thesis
    using assms a b
    by (auto simp add: field_schema_def default_entry_def map_of_append_notin
        simp del: map_of_append split: default.splits)
qed

lemma field_schema_description:
  assumes "field_schema f = JObj p"
  shows "map_of p ''description'' = map_option JStr (fdesc f)"
proof -
  have a: "''description'' \<notin> fst ` set (type_schema (fge f) (ftyp f))"
    using type_schema_keys [of "fge f" "ftyp f"] by auto
  have b: "''description'' \<notin> fst ` set (default_entry (fdefault f))"
    by (auto simp: default_entry_def split: default.splits)
  show ?thesis
    using assms a b
    by (auto simp add: field_schema_def description_entry_def map_of_append_notin
        simp del: map_of_append split: option.splits)
qed

lemma map_of_properties:
  assumes "distinct (map fname fs)" and "f \<in> set fs"
  shows "map_of (map (\<lambda>f. (fname f, field_schema f)) fs) (fname f) = Some (field_schema f)"
  using assms by (induction fs) (auto simp: rev_image_eqI)

lemma model_json_schema_properties:
  "json_get (model_json_schema m) ''properties''
     = Some (JObj (map (\<lambda>f. (fname f, field_schema f)) (mfields m)))"
  by (simp add: json_get_def model_json_schema_def defs_entry_def object_schema_def Let_def)

lemma model_json_schema_title:
  "json_get (model_json_schema m) ''title'' = Some (JStr (mname m))"
  by (simp add: json_get_def model_json_schema_def defs_entry_def object_schema_def Let_def
      required_entry_def)

lemma model_json_schema_type:
  "json_get (model_json_schema m) ''type'' = Some (JStr ''object'')"
  by (simp add: json_get_def model_json_schema_def defs_entry_def object_schema_def Let_def
      required_entry_def)

lemma model_json_schema_required:
  "json_get (model_json_schema m) ''required'' =
     (let req = map fname (filter (\<lambda>f. fdefault f = Required) (mfields m))
      in if req = [] then None else Some (JArr (map JStr req)))"
  by (simp add: json_get_def model_json_schema_def defs_entry_def object_schema_def Let_def
      required_entry_def)

lemma map_of_map_snd:
  "map_of (map (\<lambda>(k, v). (k, g v)) xs) k = map_option g (map_of xs k)"
  by (induction xs) auto

lemma map_of_schema_document:
  assumes "(n, m) \<in> set ALL_MODELS"
  shows "map_of (map (\<lambda>(name, model). (name, model_json_schema model)) ALL_MODELS) n
           = Some (model_json_schema m)"
proof -
  have "distinct (map fst ALL_MODELS)" by (simp add: ALL_MODELS_def)
  then have "map_of ALL_MODELS n = Some m" using assms by simp
  then show ?thesis by (simp add: map_of_map_snd)
qed

lemma ALL_MODELS_names:
  assumes "(n, m) \<in> set ALL_MODELS"
  shows "mname m = n" and "distinct (map fname (mfields m))"
  using assms
  by (auto simp: ALL_MODELS_def Bot_def Fan_def MediaItem_def ScriptStep_def Script_def
      Conversation_def Message_def Team_def TeamMember_def AnalyticsDaily_def)

lemma field_schema_type_lookup:
  assumes "field_schema f = JObj p" and "k \<notin> {''default'', ''description'', ''title''}"
  shows "map_of p k = map_of (type_schema (fge f) (ftyp f)) k"
proof -
  have "map_of (default_entry (fdefault f) @ description_entry (fdesc f)
                @ [(''title'', JStr (field_title (fname f)))]) k = None"
    using assms(2)
    by (auto simp: default_entry_def description_entry_def map_add_def
        split: default.splits option.splits)
  then show ?thesis
    using assms(1) by (auto simp: field_schema_def map_add_def split: option.splits)
qed

lemma field_schema_contents:
  assumes "field_schema f = JObj p"
  shows "(ftyp f = TStr \<longrightarrow> map_of p ''type'' = Some (JStr ''string''))
   \<and> (ftyp f = TInt \<longrightarrow> map_of p ''type'' = Some (JStr ''integer''))
   \<and> (ftyp f = TFloat \<longrightarrow> map_of p ''type'' = Some (JStr ''number''))
   \<and> (ftyp f = TBool \<longrightarrow> map_of p ''type'' = Some (JStr ''boolean''))
   \<and> (\<forall>xs. ftyp f = TLiteral xs \<longrightarrow>
          map_of p ''type'' = Some (JStr ''string'')
          \<and> map_of p ''enum'' = Some (JArr (map JStr xs)))
   \<and> (ftyp f = TOptional TStr \<longrightarrow>
          map_of p ''anyOf'' =
            Some (JArr [JObj [(''type'', JStr ''string'')], JObj [(''type'', JStr ''null'')]]))
   \<and> (ftyp f = TOptional TInt \<and> fge f = None \<longrightarrow>
          map_of p ''anyOf'' =
            Some (JArr [JObj [(''type'', JStr ''integer'')], JObj [(''type'', JStr ''null'')]]))
   \<and> (ftyp f = TOptional TFloat \<and> fge f = None \<longrightarrow>
          map_of p ''anyOf'' =
            Some (JArr [JObj [(''type'', JStr ''number'')], JObj [(''type'', JStr ''null'')]]))
   \<and> (\<forall>b. ftyp f = TOptional TFloat \<and> fge f = Some b \<longrightarrow>
          map_of p ''anyOf'' =
            Some (JArr [JObj [(''minimum'', JInt b), (''type'', JStr ''number'')],
                        JObj [(''type'', JStr ''null'')]]))
   \<and> (ftyp f = TList TStr \<longrightarrow>
          map_of p ''type'' = Some (JStr ''array'')
          \<and> map_of p ''items'' = Some (JObj [(''type'', JStr ''string'')]))
   \<and> (\<forall>n fs. ftyp f = TList (TModel n fs) \<longrightarrow>
          map_of p ''type'' = Some (JStr ''array'')
          \<and> map_of p ''items'' = Some (JObj [(''$ref'', JStr (''#/$defs/'' @ n))]))
   \<and> (\<forall>b. ftyp f = TInt \<and> fge f = Some b \<longrightarrow> map_of p ''minimum'' = Some (JInt b))
   \<and> (fdefault f = Default PNone \<longrightarrow> map_of p ''default'' = Some JNull)
   \<and> (\<forall>b. fdefault f = Default (PBool b) \<longrightarrow> map_of p ''default'' = Some (JBool b))
   \<and> (\<forall>i. fdefault f = Default (PInt i) \<longrightarrow> map_of p ''default'' = Some (JInt i))
   \<and> (\<forall>s. fdefault f = Default (PStr s) \<longrightarrow> map_of p ''default'' = Some (JStr s))
   \<and> (fdefault f = Required \<or> fdefault f = DefaultFactoryList \<longrightarrow>
          map_of p ''default'' = None)
   \<and> (\<forall>s. fdesc f = Some s \<longrightarrow> map_of p ''description'' = Some (JStr s))
   \<and> (fdesc f = None \<longrightarrow> map_of p ''description'' = None)"
  using field_schema_default [OF assms] field_schema_description [OF assms]
  by (auto simp: field_schema_type_lookup [OF assms] minimum_entry_def split: option.splits)

lemma ALL_MODELS_field_forms:
  "\<forall>(n, m) \<in> set ALL_MODELS. \<forall>f \<in> set (mfields m).
     (ftyp f \<in> {TStr, TInt, TFloat, TBool, TOptional TStr, TOptional TInt,
                     TOptional TFloat, TList TStr}
          \<or> (\<exists>xs. ftyp f = TLiteral xs) \<or> (\<exists>k fs. ftyp f = TList (TModel k fs)))
     \<and> (fdefault f \<in> {Required, DefaultFactoryList, Default PNone}
          \<or> (\<exists>b. fdefault f = Default (PBool b)) \<or> (\<exists>i. fdefault f = Default (PInt i))
          \<or> (\<exists>s. fdefault f = Default (PStr s)))"
  by (simp add: ALL_MODELS_def Bot_def Fan_def MediaItem_def ScriptStep_def Script_def
      Conversation_def Message_def Team_def TeamMember_def AnalyticsDaily_def) blast

lemma field_titles:
  "field_title ''bot_id'' = ''Bot Id''" "field_title ''type'' = ''Type''"
  "field_title ''caption'' = ''Caption''" "field_title ''price'' = ''Price''"
  "field_title ''external_url'' = ''External Url''"
  "field_title ''telegram_file_id'' = ''Telegram File Id''"
  "field_title ''tags'' = ''Tags''" "field_title ''thumbnail_url'' = ''Thumbnail Url''"
  "field_title ''media_item_id'' = ''Media Item Id''"
  "field_title ''delay_minutes'' = ''Delay Minutes''"
  "field_title ''name'' = ''Name''" "field_title ''steps'' = ''Steps''"
  by (simp_all add: field_title_def is_letter_def upper_char_def lower_char_def)

lemma model_json_schema_MediaItem:
  "model_json_schema MediaItem = JObj
  [(''properties'',
    JObj
     [(''bot_id'',
       JObj
        [(''type'', JStr ''string''),
         (''description'', JStr ''Bot that owns this media item''),
         (''title'', JStr ''Bot Id'')]),
      (''type'',
       JObj
        [(''enum'',
          JArr [JStr ''photo'', JStr ''video'', JStr ''document'']),
         (''type'', JStr ''string''),
         (''description'', JStr ''Telegram media type''),
         (''title'', JStr ''Type'')]),
      (''caption'',
       JObj
        [(''anyOf'',
          JArr
           [JObj [(''type'', JStr ''string'')],
            JObj [(''type'', JStr ''null'')]]),
         (''default'', JNull),
         (''description'', JStr ''Default caption to send with media''),
         (''title'', JStr ''Caption'')]),
      (''price'',
       JObj
        [(''anyOf'',
          JArr
           [JObj [(''minimum'', JInt 0), (''type'', JStr ''number'')],
            JObj [(''type'', JStr ''null'')]]),
         (''default'', JNull),
         (''description'', JStr ''Price in Stars or currency equivalent''),
         (''title'', JStr ''Price'')]),
      (''external_url'',
       JObj
        [(''anyOf'',
          JArr
           [JObj [(''type'', JStr ''string'')],
            JObj [(''type'', JStr ''null'')]]),
         (''default'', JNull),
         (''description'',
          JStr ''External URL to fetch the file from (for demos)''),
         (''title'', JStr ''External Url'')]),
      (''telegram_file_id'',
       JObj
        [(''anyOf'',
          JArr
           [JObj [(''type'', JStr ''string'')],
            JObj [(''type'', JStr ''null'')]]),
         (''default'', JNull),
         (''description'', JStr ''Telegram file_id for instant reuse''),
         (''title'', JStr ''Telegram File Id'')]),
      (''tags'',
       JObj
        [(''items'', JObj [(''type'', JStr ''string'')]),
         (''type'', JStr ''array''),
         (''description'', JStr ''Tags for quick filtering''),
         (''title'', JStr ''Tags'')]),
      (''thumbnail_url'',
       JObj
        [(''anyOf'',
          JArr
           [JObj [(''type'', JStr ''string'')],
            JObj [(''type'', JStr ''null'')]]),
         (''default'', JNull),
         (''description'', JStr ''Optional thumbnail url''),
         (''title'', JStr ''Thumbnail Url'')])]),
   (''required'', JArr [JStr ''bot_id'', JStr ''type'']),
   (''title'', JStr ''MediaItem''), (''type'', JStr ''object'')]"
  by (simp add: model_json_schema_def MediaItem_def defs_entry_def object_schema_def
      required_entry_def field_schema_def default_entry_def description_entry_def
      minimum_entry_def field_titles)

lemma model_json_schema_Script:
  "model_json_schema Script = JObj
  [(''$defs'',
    JObj
     [(''ScriptStep'',
       JObj
        [(''properties'',
          JObj
           [(''media_item_id'',
             JObj
              [(''anyOf'',
                JArr
                 [JObj [(''type'', JStr ''string'')],
                  JObj [(''type'', JStr ''null'')]]),
               (''default'', JNull),
               (''description'', JStr ''Reference to a media item''),
               (''title'', JStr ''Media Item Id'')]),
            (''caption'',
             JObj
              [(''anyOf'',
                JArr
                 [JObj [(''type'', JStr ''string'')],
                  JObj [(''type'', JStr ''null'')]]),
               (''default'', JNull),
               (''description'', JStr ''Override caption for this step''),
               (''title'', JStr ''Caption'')]),
            (''price'',
             JObj
              [(''anyOf'',
                JArr
                 [JObj [(''type'', JStr ''number'')],
                  JObj [(''type'', JStr ''null'')]]),
               (''default'', JNull),
               (''description'', JStr ''Override price for this step''),
               (''title'', JStr ''Price'')]),
            (''delay_minutes'',
             JObj
              [(''minimum'', JInt 0), (''type'', JStr ''integer''),
               (''default'', JInt 0),
               (''description'',
                JStr ''Delay before sending this step in minutes''),
               (''title'', JStr ''Delay Minutes'')])]),
         (''title'', JStr ''ScriptStep''), (''type'', JStr ''object'')])]),
   (''properties'',
    JObj
     [(''bot_id'',
       JObj
        [(''type'', JStr ''string''),
         (''description'', JStr ''Owning bot''),
         (''title'', JStr ''Bot Id'')]),
      (''name'',
       JObj
        [(''type'', JStr ''string''),
         (''description'', JStr ''Name of the sales script''),
         (''title'', JStr ''Name'')]),
      (''steps'',
       JObj
        [(''items'', JObj [(''$ref'', JStr ''#/$defs/ScriptStep'')]),
         (''type'', JStr ''array''),
         (''description'', JStr ''Sequence of steps''),
         (''title'', JStr ''Steps'')])]),
   (''required'', JArr [JStr ''bot_id'', JStr ''name'']),
   (''title'', JStr ''Script''), (''type'', JStr ''object'')]"
  by (simp add: model_json_schema_def Script_def ScriptStep_def defs_entry_def
      object_schema_def required_entry_def field_schema_def default_entry_def
      description_entry_def minimum_entry_def field_titles)

text \<open>
  C8. Whatever the state of the connection, \<open>get_schema\<close> succeeds, returns the same
  document and leaves the state as it found it. The document has one entry for each of the
  ten record definitions, under the definition's name and in the order of
  \<open>ALL_MODELS\<close>. The entry is an object titled with that name; it lists the required
  fields, and its properties are the fields of the definition in their order. The
  property of a field says its declared type (string, integer, number, boolean or array,
  \<open>anyOf\<close> with null for an optional one, the items of a list, the lower bound), the
  allowed values of a \<open>Literal\<close>, the default where one is declared and no default for
  a required field or a \<open>default_factory\<close>, and the description where one is given.
  Every field of the ten definitions has one of the types and defaults listed.
\<close>

theorem schema_export:
  "\<exists>doc.
     (\<forall>d. get_schema d = (Inr doc, d))
     \<and> map fst doc = [''Bot'', ''Fan'', ''MediaItem'', ''ScriptStep'', ''Script'', ''Conversation'',
      ''Message'', ''Team'', ''TeamMember'', ''AnalyticsDaily'']
     \<and> (\<forall>(n, m) \<in> set ALL_MODELS.
        \<exists>sch props.
          map_of doc n = Some sch
          \<and> json_get sch ''title'' = Some (JStr n)
          \<and> json_get sch ''type'' = Some (JStr ''object'')
          \<and> json_get sch ''required'' =
              (if filter (\<lambda>f. fdefault f = Required) (mfields m) = [] then None
               else Some (JArr (map (\<lambda>f. JStr (fname f))
                                  (filter (\<lambda>f. fdefault f = Required) (mfields m)))))
          \<and> json_get sch ''properties'' = Some (JObj props)
          \<and> map fst props = map fname (mfields m)
          \<and> (\<forall>f \<in> set (mfields m).
                ((ftyp f \<in> {TStr, TInt, TFloat, TBool, TOptional TStr, TOptional TInt,
                     TOptional TFloat, TList TStr}
          \<or> (\<exists>xs. ftyp f = TLiteral xs) \<or> (\<exists>k fs. ftyp f = TList (TModel k fs)))
     \<and> (fdefault f \<in> {Required, DefaultFactoryList, Default PNone}
          \<or> (\<exists>b. fdefault f = Default (PBool b)) \<or> (\<exists>i. fdefault f = Default (PInt i))
          \<or> (\<exists>s. fdefault f = Default (PStr s))))
                \<and> (\<exists>p. map_of props (fname f) = Some (JObj p)
                     \<and> (ftyp f = TStr \<longrightarrow> map_of p ''type'' = Some (JStr ''string''))
   \<and> (ftyp f = TInt \<longrightarrow> map_of p ''type'' = Some (JStr ''integer''))
   \<and> (ftyp f = TFloat \<longrightarrow> map_of p ''type'' = Some (JStr ''number''))
   \<and> (ftyp f = TBool \<longrightarrow> map_of p ''type'' = Some (JStr ''boolean''))
   \<and> (\<forall>xs. ftyp f = TLiteral xs \<longrightarrow>
          map_of p ''type'' = Some (JStr ''string'')
          \<and> map_of p ''enum'' = Some (JArr (map JStr xs)))
   \<and> (ftyp f = TOptional TStr \<longrightarrow>
          map_of p ''anyOf'' =
            Some (JArr [JObj [(''type'', JStr ''string'')], JObj [(''type'', JStr ''null'')]]))
   \<and> (ftyp f = TOptional TInt \<and> fge f = None \<longrightarrow>
          map_of p ''anyOf'' =
            Some (JArr [JObj [(''type'', JStr ''integer'')], JObj [(''type'', JStr ''null'')]]))
   \<and> (ftyp f = TOptional TFloat \<and> fge f = None \<longrightarrow>
          map_of p ''anyOf'' =
            Some (JArr [JObj [(''type'', JStr ''number'')], JObj [(''type'', JStr ''null'')]]))
   \<and> (\<forall>b. ftyp f = TOptional TFloat \<and> fge f = Some b \<longrightarrow>
          map_of p ''anyOf'' =
            Some (JArr [JObj [(''minimum'', JInt b), (''type'', JStr ''number'')],
                        JObj [(''type'', JStr ''null'')]]))
   \<and> (ftyp f = TList TStr \<longrightarrow>
          map_of p ''type'' = Some (JStr ''array'')
          \<and> map_of p ''items'' = Some (JObj [(''type'', JStr ''string'')]))
   \<and> (\<forall>n fs. ftyp f = TList (TModel n fs) \<longrightarrow>
          map_of p ''type'' = Some (JStr ''array'')
          \<and> map_of p ''items'' = Some (JObj [(''$ref'', JStr (''#/$defs/'' @ n))]))
   \<and> (\<forall>b. ftyp f = TInt \<and> fge f = Some b \<longrightarrow> map_of p ''minimum'' = Some (JInt b))
   \<and> (fdefault f = Default PNone \<longrightarrow> map_of p ''default'' = Some JNull)
   \<and> (\<forall>b. fdefault f = Default (PBool b) \<longrightarrow> map_of p ''default'' = Some (JBool b))
   \<and> (\<forall>i. fdefault f = Default (PInt i) \<longrightarrow> map_of p ''default'' = Some (JInt i))
   \<and> (\<forall>s. fdefault f = Default (PStr s) \<longrightarrow> map_of p ''default'' = Some (JStr s))
   \<and> (fdefault f = Required \<or> fdefault f = DefaultFactoryList \<longrightarrow>
          map_of p ''default'' = None)
   \<and> (\<forall>s. fdesc f = Some s \<longrightarrow> map_of p ''description'' = Some (JStr s))
   \<and> (fdesc f = None \<longrightarrow> map_of p ''description'' = None))))"
proof -
  let ?doc = "map (\<lambda>(name, model). (name, model_json_schema model)) ALL_MODELS"
  have A: "\<forall>d. get_schema d = (Inr ?doc, d)"
    by (simp add: get_schema_def)
  have B: "map fst ?doc = [''Bot'', ''Fan'', ''MediaItem'', ''ScriptStep'', ''Script'', ''Conversation'',
      ''Message'', ''Team'', ''TeamMember'', ''AnalyticsDaily'']"
    by (simp add: ALL_MODELS_def)
  have C: "\<forall>(n, m) \<in> set ALL_MODELS.
        \<exists>sch props.
          map_of ?doc n = Some sch
          \<and> json_get sch ''title'' = Some (JStr n)
          \<and> json_get sch ''type'' = Some (JStr ''object'')
          \<and> json_get sch ''required'' =
              (if filter (\<lambda>f. fdefault f = Required) (mfields m) = [] then None
               else Some (JArr (map (\<lambda>f. JStr (fname f))
                                  (filter (\<lambda>f. fdefault f = Required) (mfields m)))))
          \<and> json_get sch ''properties'' = Some (JObj props)
          \<and> map fst props = map fname (mfields m)
          \<and> (\<forall>f \<in> set (mfields m).
                ((ftyp f \<in> {TStr, TInt, TFloat, TBool, TOptional TStr, TOptional TInt,
                     TOptional TFloat, TList TStr}
          \<or> (\<exists>xs. ftyp f = TLiteral xs) \<or> (\<exists>k fs. ftyp f = TList (TModel k fs)))
     \<and> (fdefault f \<in> {Required, DefaultFactoryList, Default PNone}
          \<or> (\<exists>b. fdefault f = Default (PBool b)) \<or> (\<exists>i. fdefault f = Default (PInt i))
          \<or> (\<exists>s. fdefault f = Default (PStr s))))
                \<and> (\<exists>p. map_of props (fname f) = Some (JObj p)
                     \<and> (ftyp f = TStr \<longrightarrow> map_of p ''type'' = Some (JStr ''string''))
   \<and> (ftyp f = TInt \<longrightarrow> map_of p ''type'' = Some (JStr ''integer''))
   \<and> (ftyp f = TFloat \<longrightarrow> map_of p ''type'' = Some (JStr ''number''))
   \<and> (ftyp f = TBool \<longrightarrow> map_of p ''type'' = Some (JStr ''boolean''))
   \<and> (\<forall>xs. ftyp f = TLiteral xs \<longrightarrow>
          map_of p ''type'' = Some (JStr ''string'')
          \<and> map_of p ''enum'' = Some (JArr (map JStr xs)))
   \<and> (ftyp f = TOptional TStr \<longrightarrow>
          map_of p ''anyOf'' =
            Some (JArr [JObj [(''type'', JStr ''string'')], JObj [(''type'', JStr ''null'')]]))
   \<and> (ftyp f = TOptional TInt \<and> fge f = None \<longrightarrow>
          map_of p ''anyOf'' =
            Some (JArr [JObj [(''type'', JStr ''integer'')], JObj [(''type'', JStr ''null'')]]))
   \<and> (ftyp f = TOptional TFloat \<and> fge f = None \<longrightarrow>
          map_of p ''anyOf'' =
            Some (JArr [JObj [(''type'', JStr ''number'')], JObj [(''type'', JStr ''null'')]]))
   \<and> (\<forall>b. ftyp f = TOptional TFloat \<and> fge f = Some b \<longrightarrow>
          map_of p ''anyOf'' =
            Some (JArr [JObj [(''minimum'', JInt b), (''type'', JStr ''number'')],
                        JObj [(''type'', JStr ''null'')]]))
   \<and> (ftyp f = TList TStr \<longrightarrow>
          map_of p ''type'' = Some (JStr ''array'')
          \<and> map_of p ''items'' = Some (JObj [(''type'', JStr ''string'')]))
   \<and> (\<forall>n fs. ftyp f = TList (TModel n fs) \<longrightarrow>
          map_of p ''type'' = Some (JStr ''array'')
          \<and> map_of p ''items'' = Some (JObj [(''$ref'', JStr (''#/$defs/'' @ n))]))
   \<and> (\<forall>b. ftyp f = TInt \<and> fge f = Some b \<longrightarrow> map_of p ''minimum'' = Some (JInt b))
   \<and> (fdefault f = Default PNone \<longrightarrow> map_of p ''default'' = Some JNull)
   \<and> (\<forall>b. fdefault f = Default (PBool b) \<longrightarrow> map_of p ''default'' = Some (JBool b))
   \<and> (\<forall>i. fdefault f = Default (PInt i) \<longrightarrow> map_of p ''default'' = Some (JInt i))
   \<and> (\<forall>s. fdefault f = Default (PStr s) \<longrightarrow> map_of p ''default'' = Some (JStr s))
   \<and> (fdefault f = Required \<or> fdefault f = DefaultFactoryList \<longrightarrow>
          map_of p ''default'' = None)
   \<and> (\<forall>s. fdesc f = Some s \<longrightarrow> map_of p ''description'' = Some (JStr s))
   \<and> (fdesc f = None \<longrightarrow> map_of p ''description'' = None)))"
  proof (intro ballI, clarify)
    fix n m
    assume nm: "(n, m) \<in> set ALL_MODELS"
    let ?props = "map (\<lambda>f. (fname f, field_schema f)) (mfields m)"
    let ?sch = "model_json_schema m"
    have 1: "map_of ?doc n = Some ?sch"
      using nm by (rule map_of_schema_document)
    have 2: "json_get ?sch ''title'' = Some (JStr n)"
      using ALL_MODELS_names(1) [OF nm] by (simp add: model_json_schema_title)
    have 3: "json_get ?sch ''type'' = Some (JStr ''object'')"
      by (rule model_json_schema_type)
    have 4: "json_get ?sch ''required'' =
              (if filter (\<lambda>f. fdefault f = Required) (mfields m) = [] then None
               else Some (JArr (map (\<lambda>f. JStr (fname f))
                                  (filter (\<lambda>f. fdefault f = Required) (mfields m)))))"
      by (simp add: model_json_schema_required Let_def comp_def)
    have 5: "json_get ?sch ''properties'' = Some (JObj ?props)"
      by (rule model_json_schema_properties)
    have 6: "map fst ?props = map fname (mfields m)"
      by (simp add: comp_def)
    have 7: "((ftyp f \<in> {TStr, TInt, TFloat, TBool, TOptional TStr, TOptional TInt,
                     TOptional TFloat, TList TStr}
          \<or> (\<exists>xs. ftyp f = TLiteral xs) \<or> (\<exists>k fs. ftyp f = TList (TModel k fs)))
     \<and> (fdefault f \<in> {Required, DefaultFactoryList, Default PNone}
          \<or> (\<exists>b. fdefault f = Default (PBool b)) \<or> (\<exists>i. fdefault f = Default (PInt i))
          \<or> (\<exists>s. fdefault f = Default (PStr s))))
                \<and> (\<exists>p. map_of ?props (fname f) = Some (JObj p)
                     \<and> (ftyp f = TStr \<longrightarrow> map_of p ''type'' = Some (JStr ''string''))
   \<and> (ftyp f = TInt \<longrightarrow> map_of p ''type'' = Some (JStr ''integer''))
   \<and> (ftyp f = TFloat \<longrightarrow> map_of p ''type'' = Some (JStr ''number''))
   \<and> (ftyp f = TBool \<longrightarrow> map_of p ''type'' = Some (JStr ''boolean''))
   \<and> (\<forall>xs. ftyp f = TLiteral xs \<longrightarrow>
          map_of p ''type'' = Some (JStr ''string'')
          \<and> map_of p ''enum'' = Some (JArr (map JStr xs)))
   \<and> (ftyp f = TOptional TStr \<longrightarrow>
          map_of p ''anyOf'' =
            Some (JArr [JObj [(''type'', JStr ''string'')], JObj [(''type'', JStr ''null'')]]))
   \<and> (ftyp f = TOptional TInt \<and> fge f = None \<longrightarrow>
          map_of p ''anyOf'' =
            Some (JArr [JObj [(''type'', JStr ''integer'')], JObj [(''type'', JStr ''null'')]]))
   \<and> (ftyp f = TOptional TFloat \<and> fge f = None \<longrightarrow>
          map_of p ''anyOf'' =
            Some (JArr [JObj [(''type'', JStr ''number'')], JObj [(''type'', JStr ''null'')]]))
   \<and> (\<forall>b. ftyp f = TOptional TFloat \<and> fge f = Some b \<longrightarrow>
          map_of p ''anyOf'' =
            Some (JArr [JObj [(''minimum'', JInt b), (''type'', JStr ''number'')],
                        JObj [(''type'', JStr ''null'')]]))
   \<and> (ftyp f = TList TStr \<longrightarrow>
          map_of p ''type'' = Some (JStr ''array'')
          \<and> map_of p ''items'' = Some (JObj [(''type'', JStr ''string'')]))
   \<and> (\<forall>n fs. ftyp f = TList (TModel n fs) \<longrightarrow>
          map_of p ''type'' = Some (JStr ''array'')
          \<and> map_of p ''items'' = Some (JObj [(''$ref'', JStr (''#/$defs/'' @ n))]))
   \<and> (\<forall>b. ftyp f = TInt \<and> fge f = Some b \<longrightarrow> map_of p ''minimum'' = Some (JInt b))
   \<and> (fdefault f = Default PNone \<longrightarrow> map_of p ''default'' = Some JNull)
   \<and> (\<forall>b. fdefault f = Default (PBool b) \<longrightarrow> map_of p ''default'' = Some (JBool b))
   \<and> (\<forall>i. fdefault f = Default (PInt i) \<longrightarrow> map_of p ''default'' = Some (JInt i))
   \<and> (\<forall>s. fdefault f = Default (PStr s) \<longrightarrow> map_of p ''default'' = Some (JStr s))
   \<and> (fdefault f = Required \<or> fdefault f = DefaultFactoryList \<longrightarrow>
          map_of p ''default'' = None)
   \<and> (\<forall>s. fdesc f = Some s \<longrightarrow> map_of p ''description'' = Some (JStr s))
   \<and> (fdesc f = None \<longrightarrow> map_of p ''description'' = None))"
      (is "?C \<and> ?E")
      if f: "f \<in> set (mfields m)" for f
    proof -
      obtain p where p: "field_schema f = JObj p"
        by (simp add: field_schema_def)
      have q: "map_of ?props (fname f) = Some (JObj p)"
        using map_of_properties [OF ALL_MODELS_names(2) [OF nm] f] p by simp
      have "?C"
        by (rule ALL_MODELS_field_forms [THEN bspec, OF nm, unfolded prod.case, THEN bspec, OF f])
      moreover have "?E"
        by (rule exI [of _ p], rule conjI, rule q, rule field_schema_contents [OF p])
      ultimately show ?thesis by (rule conjI)
    qed
    show "\<exists>sch props.
          map_of ?doc n = Some sch
          \<and> json_get sch ''title'' = Some (JStr n)
          \<and> json_get sch ''type'' = Some (JStr ''object'')
          \<and> json_get sch ''required'' =
              (if filter (\<lambda>f. fdefault f = Required) (mfields m) = [] then None
               else Some (JArr (map (\<lambda>f. JStr (fname f))
                                  (filter (\<lambda>f. fdefault f = Required) (mfields m)))))
          \<and> json_get sch ''properties'' = Some (JObj props)
          \<and> map fst props = map fname (mfields m)
          \<and> (\<forall>f \<in> set (mfields m).
                ((ftyp f \<in> {TStr, TInt, TFloat, TBool, TOptional TStr, TOptional TInt,
                     TOptional TFloat, TList TStr}
          \<or> (\<exists>xs. ftyp f = TLiteral xs) \<or> (\<exists>k fs. ftyp f = TList (TModel k fs)))
     \<and> (fdefault f \<in> {Required, DefaultFactoryList, Default PNone}
          \<or> (\<exists>b. fdefault f = Default (PBool b)) \<or> (\<exists>i. fdefault f = Default (PInt i))
          \<or> (\<exists>s. fdefault f = Default (PStr s))))
                \<and> (\<exists>p. map_of props (fname f) = Some (JObj p)
                     \<and> (ftyp f = TStr \<longrightarrow> map_of p ''type'' = Some (JStr ''string''))
   \<and> (ftyp f = TInt \<longrightarrow> map_of p ''type'' = Some (JStr ''integer''))
   \<and> (ftyp f = TFloat \<longrightarrow> map_of p ''type'' = Some (JStr ''number''))
   \<and> (ftyp f = TBool \<longrightarrow> map_of p ''type'' = Some (JStr ''boolean''))
   \<and> (\<forall>xs. ftyp f = TLiteral xs \<longrightarrow>
          map_of p ''type'' = Some (JStr ''string'')
          \<and> map_of p ''enum'' = Some (JArr (map JStr xs)))
   \<and> (ftyp f = TOptional TStr \<longrightarrow>
          map_of p ''anyOf'' =
            Some (JArr [JObj [(''type'', JStr ''string'')], JObj [(''type'', JStr ''null'')]]))
   \<and> (ftyp f = TOptional TInt \<and> fge f = None \<longrightarrow>
          map_of p ''anyOf'' =
            Some (JArr [JObj [(''type'', JStr ''integer'')], JObj [(''type'', JStr ''null'')]]))
   \<and> (ftyp f = TOptional TFloat \<and> fge f = None \<longrightarrow>
          map_of p ''anyOf'' =
            Some (JArr [JObj [(''type'', JStr ''number'')], JObj [(''type'', JStr ''null'')]]))
   \<and> (\<forall>b. ftyp f = TOptional TFloat \<and> fge f = Some b \<longrightarrow>
          map_of p ''anyOf'' =
            Some (JArr [JObj [(''minimum'', JInt b), (''type'', JStr ''number'')],
                        JObj [(''type'', JStr ''null'')]]))
   \<and> (ftyp f = TList TStr \<longrightarrow>
          map_of p ''type'' = Some (JStr ''array'')
          \<and> map_of p ''items'' = Some (JObj [(''type'', JStr ''string'')]))
   \<and> (\<forall>n fs. ftyp f = TList (TModel n fs) \<longrightarrow>
          map_of p ''type'' = Some (JStr ''array'')
          \<and> map_of p ''items'' = Some (JObj [(''$ref'', JStr (''#/$defs/'' @ n))]))
   \<and> (\<forall>b. ftyp f = TInt \<and> fge f = Some b \<longrightarrow> map_of p ''minimum'' = Some (JInt b))
   \<and> (fdefault f = Default PNone \<longrightarrow> map_of p ''default'' = Some JNull)
   \<and> (\<forall>b. fdefault f = Default (PBool b) \<longrightarrow> map_of p ''default'' = Some (JBool b))
   \<and> (\<forall>i. fdefault f = Default (PInt i) \<longrightarrow> map_of p ''default'' = Some (JInt i))
   \<and> (\<forall>s. fdefault f = Default (PStr s) \<longrightarrow> map_of p ''default'' = Some (JStr s))
   \<and> (fdefault f = Required \<or> fdefault f = DefaultFactoryList \<longrightarrow>
          map_of p ''default'' = None)
   \<and> (\<forall>s. fdesc f = Some s \<longrightarrow> map_of p ''description'' = Some (JStr s))
   \<and> (fdesc f = None \<longrightarrow> map_of p ''description'' = None)))"
      apply (rule exI [of _ ?sch], rule exI [of _ ?props])
      apply (intro conjI)
            apply (rule 1, rule 2, rule 3, rule 4, rule 5, rule 6)
      apply (rule ballI, rule 7, assumption)
      done
  qed
  show ?thesis
    by (rule exI [of _ ?doc]) (intro conjI A B C)
qed


theorem schema_export_witness:
  "\<exists>doc.
     get_schema None = (Inr doc, None)
     \<and> get_schema (Some \<lparr>collections = (\<lambda>_. []), next_oid = 0, online = False\<rparr>)
         = (Inr doc, Some \<lparr>collections = (\<lambda>_. []), next_oid = 0, online = False\<rparr>)
     \<and> map_of doc ''MediaItem'' = Some (JObj
  [(''properties'',
    JObj
     [(''bot_id'',
       JObj
        [(''type'', JStr ''string''),
         (''description'', JStr ''Bot that owns this media item''),
         (''title'', JStr ''Bot Id'')]),
      (''type'',
       JObj
        [(''enum'',
          JArr [JStr ''photo'', JStr ''video'', JStr ''document'']),
         (''type'', JStr ''string''),
         (''description'', JStr ''Telegram media type''),
         (''title'', JStr ''Type'')]),
      (''caption'',
       JObj
        [(''anyOf'',
          JArr
           [JObj [(''type'', JStr ''string'')],
            JObj [(''type'', JStr ''null'')]]),
         (''default'', JNull),
         (''description'', JStr ''Default caption to send with media''),
         (''title'', JStr ''Caption'')]),
      (''price'',
       JObj
        [(''anyOf'',
          JArr
           [JObj [(''minimum'', JInt 0), (''type'', JStr ''number'')],
            JObj [(''type'', JStr ''null'')]]),
         (''default'', JNull),
         (''description'', JStr ''Price in Stars or currency equivalent''),
         (''title'', JStr ''Price'')]),
      (''external_url'',
       JObj
        [(''anyOf'',
          JArr
           [JObj [(''type'', JStr ''string'')],
            JObj [(''type'', JStr ''null'')]]),
         (''default'', JNull),
         (''description'',
          JStr ''External URL to fetch the file from (for demos)''),
         (''title'', JStr ''External Url'')]),
      (''telegram_file_id'',
       JObj
        [(''anyOf'',
          JArr
           [JObj [(''type'', JStr ''string'')],
            JObj [(''type'', JStr ''null'')]]),
         (''default'', JNull),
         (''description'', JStr ''Telegram file_id for instant reuse''),
         (''title'', JStr ''Telegram File Id'')]),
      (''tags'',
       JObj
        [(''items'', JObj [(''type'', JStr ''string'')]),
         (''type'', JStr ''array''),
         (''description'', JStr ''Tags for quick filtering''),
         (''title'', JStr ''Tags'')]),
      (''thumbnail_url'',
       JObj
        [(''anyOf'',
          JArr
           [JObj [(''type'', JStr ''string'')],
            JObj [(''type'', JStr ''null'')]]),
         (''default'', JNull),
         (''description'', JStr ''Optional thumbnail url''),
         (''title'', JStr ''Thumbnail Url'')])]),
   (''required'', JArr [JStr ''bot_id'', JStr ''type'']),
   (''title'', JStr ''MediaItem''), (''type'', JStr ''object'')])
     \<and> map_of doc ''Script'' = Some (JObj
  [(''$defs'',
    JObj
     [(''ScriptStep'',
       JObj
        [(''properties'',
          JObj
           [(''media_item_id'',
             JObj
              [(''anyOf'',
                JArr
                 [JObj [(''type'', JStr ''string'')],
                  JObj [(''type'', JStr ''null'')]]),
               (''default'', JNull),
               (''description'', JStr ''Reference to a media item''),
               (''title'', JStr ''Media Item Id'')]),
            (''caption'',
             JObj
              [(''anyOf'',
                JArr
                 [JObj [(''type'', JStr ''string'')],
                  JObj [(''type'', JStr ''null'')]]),
               (''default'', JNull),
               (''description'', JStr ''Override caption for this step''),
               (''title'', JStr ''Caption'')]),
            (''price'',
             JObj
              [(''anyOf'',
                JArr
                 [JObj [(''type'', JStr ''number'')],
                  JObj [(''type'', JStr ''null'')]]),
               (''default'', JNull),
               (''description'', JStr ''Override price for this step''),
               (''title'', JStr ''Price'')]),
            (''delay_minutes'',
             JObj
              [(''minimum'', JInt 0), (''type'', JStr ''integer''),
               (''default'', JInt 0),
               (''description'',
                JStr ''Delay before sending this step in minutes''),
               (''title'', JStr ''Delay Minutes'')])]),
         (''title'', JStr ''ScriptStep''), (''type'', JStr ''object'')])]),
   (''properties'',
    JObj
     [(''bot_id'',
       JObj
        [(''type'', JStr ''string''),
         (''description'', JStr ''Owning bot''),
         (''title'', JStr ''Bot Id'')]),
      (''name'',
       JObj
        [(''type'', JStr ''string''),
         (''description'', JStr ''Name of the sales script''),
         (''title'', JStr ''Name'')]),
      (''steps'',
       JObj
        [(''items'', JObj [(''$ref'', JStr ''#/$defs/ScriptStep'')]),
         (''type'', JStr ''array''),
         (''description'', JStr ''Sequence of steps''),
         (''title'', JStr ''Steps'')])]),
   (''required'', JArr [JStr ''bot_id'', JStr ''name'']),
   (''title'', JStr ''Script''), (''type'', JStr ''object'')])"
proof -
  have "\<exists>doc. \<forall>d. get_schema d = (Inr doc, d)"
    using schema_export by (elim exE conjE) (rule exI)
  then obtain doc where d: "\<forall>d. get_schema d = (Inr doc, d)" ..
  from d have "get_schema None = (Inr doc, None)" by (rule spec)
  then have doc: "doc = map (\<lambda>(name, model). (name, model_json_schema model)) ALL_MODELS"
    by (simp add: get_schema_def)
  have m: "(''MediaItem'', MediaItem) \<in> set ALL_MODELS" by (simp add: ALL_MODELS_def)
  have s: "(''Script'', Script) \<in> set ALL_MODELS" by (simp add: ALL_MODELS_def)
  have "map_of doc ''MediaItem'' = Some (model_json_schema MediaItem)"
    unfolding doc using m by (rule map_of_schema_document)
  moreover have "map_of doc ''Script'' = Some (model_json_schema Script)"
    unfolding doc using s by (rule map_of_schema_document)
  ultimately show ?thesis
    using d by (intro exI [of _ doc]) (simp add: model_json_schema_MediaItem model_json_schema_Script)
qed

end
